theory Spec2Isabelle
  imports Main "HOL-Library.Multiset"
begin

section \<open>Python values used by the bot\<close>

text \<open>
  A string is the list of its bytes in UTF-8. \<open>truthy\<close> is Python's truth test of an
  optional string (\<open>if message.text\<close>): \<open>None\<close> and the empty string are false.
\<close>

fun truthy :: "string option \<Rightarrow> bool" where
  "truthy None = False"
| "truthy (Some s) = (s \<noteq> [])"

text \<open>\<open>sub in s\<close> on strings.\<close>

fun str_contains :: "string \<Rightarrow> string \<Rightarrow> bool" where
  "str_contains sub [] = (sub = [])"
| "str_contains sub (c # cs) = (take (length sub) (c # cs) = sub \<or> str_contains sub cs)"

text \<open>
  \<open>str.lower()\<close> folds every cased letter of Unicode. The model does not fix it: it is
  the field \<open>str_lower\<close> of the environment below, and every statement holds for
  whatever function it is. \<open>ascii_lower\<close> is what \<open>str.lower()\<close> does to a string of
  ASCII characters; only the concrete inputs, whose texts are ASCII, use it.
\<close>

definition ascii_lower_char :: "char \<Rightarrow> char" where
  "ascii_lower_char c =
     (let n = (of_char c :: nat) in if 65 \<le> n \<and> n \<le> 90 then char_of (n + 32) else c)"

definition ascii_lower :: "string \<Rightarrow> string" where
  "ascii_lower s = map ascii_lower_char s"

text \<open>\<open>str(n)\<close> for an integer and zero padding, as \<open>strftime\<close> needs them.\<close>

definition digit_char :: "nat \<Rightarrow> char" where
  "digit_char d = ''0123456789'' ! d"

fun str_nat :: "nat \<Rightarrow> string" where
  "str_nat n = (if n < 10 then [digit_char n] else str_nat (n div 10) @ [digit_char (n mod 10)])"

declare str_nat.simps [simp del]

definition str_int :: "int \<Rightarrow> string" where
  "str_int i = (if i < 0 then CHR ''-'' # str_nat (nat (- i)) else str_nat (nat i))"

definition zfill :: "nat \<Rightarrow> string \<Rightarrow> string" where
  "zfill w s = replicate (w - length s) CHR ''0'' @ s"

record datetime =
  year :: nat
  month :: nat
  day :: nat
  hour :: nat
  minute :: nat
  second :: nat

text \<open>\<open>d.strftime('%Y-%m-%d %H:%M:%S')\<close>.\<close>

definition strftime :: "datetime \<Rightarrow> string" where
  "strftime d =
     zfill 4 (str_nat (year d)) @ ''-'' @ zfill 2 (str_nat (month d)) @ ''-'' @
     zfill 2 (str_nat (day d)) @ '' '' @ zfill 2 (str_nat (hour d)) @ '':'' @
     zfill 2 (str_nat (minute d)) @ '':'' @ zfill 2 (str_nat (second d))"

section \<open>Data model\<close>

record user =
  user_id :: int
  full_name :: string

text \<open>
  The fields of \<open>telegram.Message\<close> that the forwarding code reads. \<open>photo\<close> is the
  tuple of photo sizes (their file ids, smallest first); \<open>video\<close>, \<open>document\<close> and
  \<open>audio\<close> hold the file id; the remaining attachments are only tested for presence.
  \<open>chat_id\<close> is also \<open>message.chat.id\<close>.
\<close>

record message =
  message_id :: int
  chat_id :: int
  chat_title :: "string option"
  media_group_id :: "string option"
  msg_text :: "string option"
  caption :: "string option"
  photo :: "string list"
  video :: "string option"
  document :: "string option"
  audio :: "string option"
  voice :: bool
  sticker :: bool
  animation :: bool
  location :: bool
  poll :: bool
  from_user :: "user option"
  date :: datetime

text \<open>The entries of \<open>self.config\<close> that the pipeline reads.\<close>

record config =
  admins :: "int list"
  source_channels :: "int list"
  target_channels :: "int list"
  preserve_sender :: bool
  add_source_info :: bool
  filter_content_types :: "string list"
  keyword_filter :: "string list"
  delay_seconds :: int
  notify_admin_on_error :: bool

text \<open>A row of the table \<open>forward_logs\<close>, as \<open>log_forward\<close> inserts it.\<close>

record forward_log =
  source_chat_id :: int
  target_chat_id :: int
  original_message_id :: int
  forwarded_message_id :: "int option"
  content_type :: string
  log_media_group_id :: "string option"
  is_media_group :: bool
  success :: bool
  error_message :: "string option"

datatype input_media =
    InputMediaPhoto string "string option"
  | InputMediaVideo string "string option"
  | InputMediaDocument string "string option"
  | InputMediaAudio string "string option"

text \<open>
  The two content sends of the bot API that the dispatcher calls:
  \<open>copy_message(chat_id, from_chat_id, message_id, caption)\<close> and
  \<open>send_media_group(chat_id, media)\<close>.
\<close>

datatype provider_call =
    CopyMessage int int int "string option"
  | SendMediaGroup int "input_media list"

fun call_target :: "provider_call \<Rightarrow> int" where
  "call_target (CopyMessage t _ _ _) = t"
| "call_target (SendMediaGroup t _) = t"

fun is_album :: "provider_call \<Rightarrow> bool" where
  "is_album (CopyMessage _ _ _ _) = False"
| "is_album (SendMediaGroup _ _) = True"

text \<open>
  The text that \<open>notify_admins_error\<close> sends: the f-string's four values
  (source chat title, target id, error text, time).
\<close>

datatype admin_text = ErrorText string int string string

text \<open>
  The warning and error lines of the operational log (\<open>logger.warning\<close>,
  \<open>logger.error\<close>), by the call that writes them. Lines of level info are not
  modelled.
\<close>

datatype log_line =
    UnsupportedMediaType string
  | MediaGroupForwardFailed int int string
  | ForwardFailed int int string
  | LogForwardFailed string
  | NotifyAdminFailed int string

text \<open>
  A timer task of \<open>MediaGroupHandler.group_timers\<close>: asleep in
  \<open>asyncio.sleep(timeout_seconds)\<close>, suspended inside \<open>await forward_callback(messages)\<close>
  with the batch it handed over, or finished.
\<close>

datatype timer_task = Sleeping | InCallback "message list" | Done

text \<open>
  The mutable state: the counters of \<open>self.stats\<close>, the rows of \<open>forward_logs\<close>, the
  traces of what the bot did to the outside (content sends attempted, admin
  notifications attempted, \<open>asyncio.sleep(delay)\<close> calls, operational log), the two
  dictionaries of the \<open>MediaGroupHandler\<close>, and the trace of the batches handed to
  \<open>forward_callback\<close>.
\<close>

record bot_state =
  messages_received :: nat
  messages_forwarded :: nat
  failed_forwards :: nat
  media_groups_forwarded :: nat
  forward_logs :: "forward_log list"
  sent :: "provider_call list"
  notified :: "(int \<times> admin_text) list"
  slept :: "int list"
  oplog :: "log_line list"
  media_groups :: "string \<rightharpoonup> message list"
  group_timers :: "string \<rightharpoonup> timer_task"
  emitted :: "message list list"

text \<open>
  The outside world: what the provider answers to each request (\<open>Inl\<close> is the text of
  the exception it raises), whether SQLite accepts a row (\<open>Some\<close> is the text of the
  exception), the wall clock, and Python's \<open>str.lower()\<close>.
\<close>

record env =
  copy_message :: "int \<Rightarrow> int \<Rightarrow> int \<Rightarrow> string option \<Rightarrow> string + int"
  send_media_group :: "int \<Rightarrow> input_media list \<Rightarrow> string + int list"
  send_message :: "int \<Rightarrow> admin_text \<Rightarrow> string option"
  db_insert :: "forward_log \<Rightarrow> string option"
  now :: datetime
  str_lower :: "string \<Rightarrow> string"

section \<open>Actions: state and exceptions\<close>

text \<open>
  A method of the bot is a function from the state to an outcome and the new state.
  \<open>Raised e\<close> is an \<open>Exception\<close> whose \<open>str\<close> is \<open>e\<close>; what the code changed before it
  raised stays changed.
\<close>

datatype 'a outcome = Returned 'a | Raised string

type_synonym 'a action = "bot_state \<Rightarrow> 'a outcome \<times> bot_state"

definition returnM :: "'a \<Rightarrow> 'a action" where
  "returnM x = (\<lambda>s. (Returned x, s))"

definition raiseM :: "string \<Rightarrow> 'a action" where
  "raiseM e = (\<lambda>s. (Raised e, s))"

definition bindM :: "'a action \<Rightarrow> ('a \<Rightarrow> 'b action) \<Rightarrow> 'b action" where
  "bindM m f = (\<lambda>s. case m s of (Returned x, s') \<Rightarrow> f x s' | (Raised e, s') \<Rightarrow> (Raised e, s'))"

text \<open>\<open>try: body except Exception as e: handler(str(e))\<close>.\<close>

definition try_except :: "'a action \<Rightarrow> (string \<Rightarrow> 'a action) \<Rightarrow> 'a action" where
  "try_except body handler =
     (\<lambda>s. case body s of (Returned x, s') \<Rightarrow> (Returned x, s') | (Raised e, s') \<Rightarrow> handler e s')"

definition modify :: "(bot_state \<Rightarrow> bot_state) \<Rightarrow> unit action" where
  "modify f = (\<lambda>s. (Returned (), f s))"

text \<open>\<open>for x in xs: body(x)\<close>.\<close>

fun for_each :: "'a list \<Rightarrow> ('a \<Rightarrow> unit action) \<Rightarrow> unit action" where
  "for_each [] body = returnM ()"
| "for_each (x # xs) body = bindM (body x) (\<lambda>_. for_each xs body)"

text \<open>\<open>xs[0]\<close>.\<close>

definition getitem0 :: "'a list \<Rightarrow> 'a action" where
  "getitem0 xs = (case xs of [] \<Rightarrow> raiseM ''list index out of range'' | x # _ \<Rightarrow> returnM x)"

definition logger :: "log_line \<Rightarrow> unit action" where
  "logger l = modify (\<lambda>s. s\<lparr>oplog := oplog s @ [l]\<rparr>)"

definition asyncio_sleep :: "int \<Rightarrow> unit action" where
  "asyncio_sleep d = modify (\<lambda>s. s\<lparr>slept := slept s @ [d]\<rparr>)"

section \<open>Content classifier and filter\<close>

definition get_message_type :: "message \<Rightarrow> string" where
  "get_message_type m =
     (if truthy (msg_text m) then ''text''
      else if photo m \<noteq> [] then ''photo''
      else if video m \<noteq> None then ''video''
      else if document m \<noteq> None then ''document''
      else if audio m \<noteq> None then ''audio''
      else if voice m then ''voice''
      else if sticker m then ''sticker''
      else if animation m then ''animation''
      else if location m then ''location''
      else if poll m then ''poll''
      else ''other'')"

definition should_filter_message :: "env \<Rightarrow> config \<Rightarrow> message \<Rightarrow> string \<Rightarrow> bool" where
  "should_filter_message env cfg m ctype =
     (if ctype \<in> set (filter_content_types cfg) then True
      else if truthy (msg_text m) \<and> keyword_filter cfg \<noteq> [] then
        (let text_lower = str_lower env (case msg_text m of Some t \<Rightarrow> t | None \<Rightarrow> [])
         in list_ex (\<lambda>keyword. str_contains (str_lower env keyword) text_lower)
              (keyword_filter cfg))
      else False)"

section \<open>Delivery log and notifier\<close>

text \<open>
  The tuple of values that \<open>log_forward\<close> inserts, from its arguments in their order:
  source chat, target chat, original message id, forwarded message id, content type,
  media group id, is-media-group flag, success flag, error text.
\<close>

definition log_row ::
  "int \<Rightarrow> int \<Rightarrow> int \<Rightarrow> int option \<Rightarrow> string \<Rightarrow> string option \<Rightarrow> bool \<Rightarrow> bool \<Rightarrow> string option
   \<Rightarrow> forward_log" where
  "log_row src tgt orig fwd ctype gid is_group ok err =
     \<lparr>source_chat_id = src, target_chat_id = tgt, original_message_id = orig,
      forwarded_message_id = fwd, content_type = ctype, log_media_group_id = gid,
      is_media_group = is_group, success = ok, error_message = err\<rparr>"

text \<open>
  \<open>log_forward\<close>: the body of the \<open>try\<close> connects, inserts and commits; any of the
  three may raise, and then the row is not in the table.
\<close>

definition sqlite_insert :: "env \<Rightarrow> forward_log \<Rightarrow> unit action" where
  "sqlite_insert env row =
     (\<lambda>s. case db_insert env row of
             None \<Rightarrow> (Returned (), s\<lparr>forward_logs := forward_logs s @ [row]\<rparr>)
           | Some e \<Rightarrow> (Raised e, s))"

definition log_forward :: "env \<Rightarrow> forward_log \<Rightarrow> unit action" where
  "log_forward env row =
     try_except (sqlite_insert env row) (\<lambda>e. logger (LogForwardFailed e))"

definition bot_send_message :: "env \<Rightarrow> int \<Rightarrow> admin_text \<Rightarrow> unit action" where
  "bot_send_message env admin_id txt =
     (\<lambda>s. let s' = s\<lparr>notified := notified s @ [(admin_id, txt)]\<rparr>
          in case send_message env admin_id txt of
               None \<Rightarrow> (Returned (), s')
             | Some e \<Rightarrow> (Raised e, s'))"

definition title_or_id :: "message \<Rightarrow> string" where
  "title_or_id m = (if truthy (chat_title m) then (case chat_title m of Some t \<Rightarrow> t | None \<Rightarrow> [])
                    else str_int (chat_id m))"

definition notify_admins_error :: "env \<Rightarrow> config \<Rightarrow> message \<Rightarrow> int \<Rightarrow> string \<Rightarrow> unit action" where
  "notify_admins_error env cfg m target_id error_msg =
     (let chat_title = title_or_id m;
          time_str = strftime (now env);
          error_text = ErrorText chat_title target_id error_msg time_str
      in for_each (admins cfg) (\<lambda>admin_id.
           try_except (bot_send_message env admin_id error_text)
             (\<lambda>e. logger (NotifyAdminFailed admin_id e))))"

section \<open>Dispatcher\<close>

definition build_caption :: "config \<Rightarrow> message \<Rightarrow> string" where
  "build_caption cfg m =
     (let original_caption = (if truthy (caption m) then (case caption m of Some c \<Rightarrow> c | None \<Rightarrow> []) else [])
      in if \<not> add_source_info cfg then original_caption
         else
           (let chat_title = title_or_id m;
                source_info0 = [];
                source_info1 =
                  (if from_user m \<noteq> None \<and> preserve_sender cfg
                   then (let sender_name = (case from_user m of Some u \<Rightarrow> full_name u | None \<Rightarrow> [])
                         in source_info0 @ [])
                   else source_info0);
                time_str = strftime (date m);
                source_info2 = source_info1 @ []
            in original_caption @ source_info2))"

text \<open>
  \<open>create_input_media\<close>: the chain of tests is \<open>input_media_of\<close>; the last branch also
  writes the warning. Nothing in the body of its \<open>try\<close> raises on a message.
\<close>

definition input_media_of :: "message \<Rightarrow> string option \<Rightarrow> input_media option" where
  "input_media_of m cap =
     (if photo m \<noteq> [] then Some (InputMediaPhoto (last (photo m)) cap)
      else case video m of Some v \<Rightarrow> Some (InputMediaVideo v cap)
      | None \<Rightarrow> (case document m of Some d \<Rightarrow> Some (InputMediaDocument d cap)
      | None \<Rightarrow> (case audio m of Some a \<Rightarrow> Some (InputMediaAudio a cap)
      | None \<Rightarrow> None)))"

definition create_input_media :: "message \<Rightarrow> string option \<Rightarrow> (input_media option) action" where
  "create_input_media m cap =
     (case input_media_of m cap of
        Some im \<Rightarrow> returnM (Some im)
      | None \<Rightarrow> bindM (logger (UnsupportedMediaType (get_message_type m))) (\<lambda>_. returnM None))"

definition bot_copy_message :: "env \<Rightarrow> int \<Rightarrow> int \<Rightarrow> int \<Rightarrow> string option \<Rightarrow> int action" where
  "bot_copy_message env target_id from_chat mid cap =
     (\<lambda>s. let s' = s\<lparr>sent := sent s @ [CopyMessage target_id from_chat mid cap]\<rparr>
          in case copy_message env target_id from_chat mid cap of
               Inr fwd \<Rightarrow> (Returned fwd, s')
             | Inl e \<Rightarrow> (Raised e, s'))"

definition bot_send_media_group :: "env \<Rightarrow> int \<Rightarrow> input_media list \<Rightarrow> (int list) action" where
  "bot_send_media_group env target_id media =
     (\<lambda>s. let s' = s\<lparr>sent := sent s @ [SendMediaGroup target_id media]\<rparr>
          in case send_media_group env target_id media of
               Inr ids \<Rightarrow> (Returned ids, s')
             | Inl e \<Rightarrow> (Raised e, s'))"

text \<open>One round of the loop \<open>for target_id in targets\<close> of \<open>forward_single_message\<close>.\<close>

definition forward_single_to :: "env \<Rightarrow> config \<Rightarrow> message \<Rightarrow> string \<Rightarrow> int \<Rightarrow> unit action" where
  "forward_single_to env cfg m ctype target_id =
     try_except
       (let cap = (if add_source_info cfg then Some (build_caption cfg m) else None)
        in bindM (bot_copy_message env target_id (chat_id m) (message_id m) cap) (\<lambda>fwd.
           bindM (log_forward env
                    (log_row (chat_id m) target_id (message_id m) (Some fwd) ctype
                       (media_group_id m) False True None)) (\<lambda>_.
           modify (\<lambda>s. s\<lparr>messages_forwarded := messages_forwarded s + 1\<rparr>))))
       (\<lambda>error_msg.
           bindM (logger (ForwardFailed (chat_id m) target_id error_msg)) (\<lambda>_.
           bindM (log_forward env
                    (log_row (chat_id m) target_id (message_id m) None ctype
                       (media_group_id m) False False (Some error_msg))) (\<lambda>_.
           bindM (modify (\<lambda>s. s\<lparr>failed_forwards := failed_forwards s + 1\<rparr>)) (\<lambda>_.
           if notify_admin_on_error cfg then notify_admins_error env cfg m target_id error_msg
           else returnM ()))))"

definition forward_single_message :: "env \<Rightarrow> config \<Rightarrow> message \<Rightarrow> unit action" where
  "forward_single_message env cfg m =
     (let targets = target_channels cfg;
          ctype = get_message_type m
      in for_each targets (forward_single_to env cfg m ctype))"

text \<open>
  The loop \<open>for i, message in enumerate(messages)\<close> that builds \<open>media_list\<close>: only
  the first message can carry the caption, and a message without an input media is
  left out.
\<close>

fun build_media_list ::
  "string option \<Rightarrow> (nat \<times> message) list \<Rightarrow> input_media list \<Rightarrow> (input_media list) action" where
  "build_media_list caption_text [] media_list = returnM media_list"
| "build_media_list caption_text ((i, m) # rest) media_list =
     bindM (if i = 0 \<and> truthy caption_text then create_input_media m caption_text
            else create_input_media m None) (\<lambda>input_media.
       build_media_list caption_text rest
         (case input_media of Some im \<Rightarrow> media_list @ [im] | None \<Rightarrow> media_list))"

text \<open>One round of the loop \<open>for target_id in targets\<close> of \<open>forward_media_group\<close>.\<close>

definition forward_media_group_to :: "env \<Rightarrow> config \<Rightarrow> message list \<Rightarrow> int \<Rightarrow> unit action" where
  "forward_media_group_to env cfg messages target_id =
     try_except
       (bindM (if add_source_info cfg
               then bindM (getitem0 messages) (\<lambda>m0. returnM (Some (build_caption cfg m0)))
               else returnM None) (\<lambda>caption_text.
        bindM (build_media_list caption_text (enumerate 0 messages) []) (\<lambda>media_list.
        if media_list \<noteq> [] then
          bindM (bot_send_media_group env target_id media_list) (\<lambda>sent_messages.
          bindM (for_each (zip messages sent_messages)
                   (\<lambda>(original_msg, sent_msg).
                      log_forward env
                        (log_row (chat_id original_msg) target_id (message_id original_msg)
                           (Some sent_msg) (get_message_type original_msg)
                           (media_group_id original_msg) True True None))) (\<lambda>_.
          modify (\<lambda>s. s\<lparr>messages_forwarded := messages_forwarded s + length messages,
                         media_groups_forwarded := media_groups_forwarded s + 1\<rparr>)))
        else returnM ())))
       (\<lambda>error_msg.
          bindM (getitem0 messages) (\<lambda>m0.
          bindM (logger (MediaGroupForwardFailed (chat_id m0) target_id error_msg)) (\<lambda>_.
          bindM (for_each messages
                   (\<lambda>m. log_forward env
                          (log_row (chat_id m) target_id (message_id m) None (get_message_type m)
                             (media_group_id m) True False (Some error_msg)))) (\<lambda>_.
          bindM (modify (\<lambda>s. s\<lparr>failed_forwards := failed_forwards s + length messages\<rparr>)) (\<lambda>_.
          if notify_admin_on_error cfg
          then bindM (getitem0 messages) (\<lambda>m0. notify_admins_error env cfg m0 target_id error_msg)
          else returnM ())))))"

definition forward_media_group :: "env \<Rightarrow> config \<Rightarrow> message list \<Rightarrow> unit action" where
  "forward_media_group env cfg messages =
     (let targets = target_channels cfg
      in for_each targets (forward_media_group_to env cfg messages))"

definition forward_messages_group :: "env \<Rightarrow> config \<Rightarrow> message list \<Rightarrow> unit action" where
  "forward_messages_group env cfg messages =
     (if messages = [] then returnM ()
      else
        (let targets = target_channels cfg
         in if targets = [] then returnM ()
            else
              (let delay = delay_seconds cfg
               in bindM (if delay > 0 then asyncio_sleep delay else returnM ()) (\<lambda>_.
                  if length messages > 1 \<and> truthy (media_group_id (hd messages))
                  then forward_media_group env cfg messages
                  else bindM (getitem0 messages) (forward_single_message env cfg)))))"

section \<open>Group aggregator\<close>

text \<open>
  \<open>forward_callback\<close> is \<open>forward_messages_group\<close>; every batch handed to it is
  appended to the trace \<open>emitted\<close>.
\<close>

definition emit :: "message list \<Rightarrow> unit action" where
  "emit batch = modify (\<lambda>s. s\<lparr>emitted := emitted s @ [batch]\<rparr>)"

text \<open>
  \<open>MediaGroupHandler.add_message\<close>. A message without a group id is forwarded at
  once, inside the call. Otherwise it is appended to the buffer of its group (a
  \<open>defaultdict(list)\<close>), the timer task registered for the group is cancelled, in
  whatever phase it is, and a new sleeping task replaces it. A cancelled task never
  runs again (the \<open>CancelledError\<close> thrown into it is not an \<open>Exception\<close>, so no
  \<open>except\<close> clause of the dispatcher catches it, and it ends the task before its
  cleanup), so the tasks that can still run are the ones registered in
  \<open>group_timers\<close>.
\<close>

definition add_message :: "env \<Rightarrow> config \<Rightarrow> message \<Rightarrow> unit action" where
  "add_message env cfg m =
     (if \<not> truthy (media_group_id m)
      then bindM (emit [m]) (\<lambda>_. forward_messages_group env cfg [m])
      else
        (let group_id = (case media_group_id m of Some g \<Rightarrow> g | None \<Rightarrow> [])
         in modify (\<lambda>s.
              s\<lparr>media_groups := (media_groups s)
                   (group_id \<mapsto> (case media_groups s group_id of None \<Rightarrow> [] | Some ms \<Rightarrow> ms) @ [m]),
                group_timers := (group_timers s)(group_id \<mapsto> Sleeping)\<rparr>)))"

text \<open>
  \<open>_process_group_after_timeout\<close>, first half: the sleep of the registered task has
  ended. The buffer is sorted in place by message id (a stable sort) and handed to
  \<open>forward_callback\<close>, where the task is then suspended.
\<close>

definition process_group_wake :: "string \<Rightarrow> unit action" where
  "process_group_wake group_id =
     (\<lambda>s. case group_timers s group_id of
             Some Sleeping \<Rightarrow>
               (case media_groups s group_id of
                  Some messages \<Rightarrow>
                    (let batch = sort_key message_id messages
                     in bindM (modify (\<lambda>s. s\<lparr>media_groups := (media_groups s)(group_id \<mapsto> batch),
                                               group_timers := (group_timers s)(group_id \<mapsto> InCallback batch)\<rparr>))
                          (\<lambda>_. emit batch) s)
                | None \<Rightarrow> modify (\<lambda>s. s\<lparr>group_timers := (group_timers s)(group_id \<mapsto> Done)\<rparr>) s)
           | _ \<Rightarrow> (Returned (), s))"

text \<open>\<open>del self.media_groups[group_id]\<close>.\<close>

definition del_media_group :: "string \<Rightarrow> unit action" where
  "del_media_group group_id =
     (\<lambda>s. case media_groups s group_id of
             None \<Rightarrow> (Raised ''KeyError'', s)
           | Some _ \<Rightarrow> (Returned (), s\<lparr>media_groups := (media_groups s)(group_id := None)\<rparr>))"

text \<open>
  Second half: the callback runs to its end and the task cleans up. The effects of the
  callback are applied here, in one step.
\<close>

definition process_group_finish :: "env \<Rightarrow> config \<Rightarrow> string \<Rightarrow> unit action" where
  "process_group_finish env cfg group_id =
     (\<lambda>s. case group_timers s group_id of
             Some (InCallback batch) \<Rightarrow>
               bindM (forward_messages_group env cfg batch) (\<lambda>_.
               bindM (del_media_group group_id) (\<lambda>_.
               modify (\<lambda>s. s\<lparr>group_timers := (group_timers s)(group_id := None)\<rparr>))) s
           | _ \<Rightarrow> (Returned (), s))"

section \<open>Message handler and event loop\<close>

definition handle_message :: "env \<Rightarrow> config \<Rightarrow> message option \<Rightarrow> unit action" where
  "handle_message env cfg update_message =
     (case update_message of
        None \<Rightarrow> returnM ()
      | Some m \<Rightarrow>
          if chat_id m \<notin> set (source_channels cfg) then returnM ()
          else bindM (modify (\<lambda>s. s\<lparr>messages_received := messages_received s + 1\<rparr>)) (\<lambda>_.
               let ctype = get_message_type m
               in if should_filter_message env cfg m ctype then returnM ()
                  else add_message env cfg m))"

text \<open>
  What the event loop can run next: the handler of an update, the wake-up of a group's
  timer task, or the end of a group's callback. An exception that leaves a handler or
  a task ends only that handler or task.
\<close>

datatype event = Update "message option" | Wake string | Finish string

fun step :: "env \<Rightarrow> config \<Rightarrow> event \<Rightarrow> unit action" where
  "step env cfg (Update u) = handle_message env cfg u"
| "step env cfg (Wake g) = process_group_wake g"
| "step env cfg (Finish g) = process_group_finish env cfg g"

fun run :: "env \<Rightarrow> config \<Rightarrow> event list \<Rightarrow> bot_state \<Rightarrow> bot_state" where
  "run env cfg [] s = s"
| "run env cfg (e # es) s = run env cfg es (snd (step env cfg e s))"

section \<open>Rate limiter\<close>

text \<open>
  \<open>utils.RateLimiter\<close>. A \<open>datetime\<close> is its number of microseconds;
  \<open>timedelta(minutes=1)\<close> is 60000000, and \<open>.seconds\<close> of a difference is its seconds
  within the day.
\<close>

record rate_limiter =
  max_per_minute :: int
  requests :: "int list"

definition timedelta_seconds :: "int \<Rightarrow> int" where
  "timedelta_seconds d = (d mod 86400000000) div 1000000"

definition acquire :: "int \<Rightarrow> rate_limiter \<Rightarrow> bool \<times> rate_limiter" where
  "acquire now_t rl =
     (let reqs = filter (\<lambda>req_time. now_t - req_time < 60000000) (requests rl)
      in if int (length reqs) \<ge> max_per_minute rl then (False, rl\<lparr>requests := reqs\<rparr>)
         else (True, rl\<lparr>requests := reqs @ [now_t]\<rparr>))"

text \<open>
  \<open>wait_if_needed\<close> reads the clock twice: \<open>now1\<close> inside \<open>acquire\<close>, \<open>now2\<close> for the
  sleep time. It returns the seconds it slept, if it slept; \<open>min\<close> of an empty list
  raises.
\<close>

definition wait_if_needed :: "int \<Rightarrow> int \<Rightarrow> rate_limiter \<Rightarrow> (int option) outcome \<times> rate_limiter" where
  "wait_if_needed now1 now2 rl =
     (case acquire now1 rl of
        (True, rl') \<Rightarrow> (Returned None, rl')
      | (False, rl') \<Rightarrow>
          (case requests rl' of
             [] \<Rightarrow> (Raised ''min() arg is an empty sequence'', rl')
           | r # rs \<Rightarrow> (Returned (Some (60 - timedelta_seconds (now2 - min_list (r # rs)))), rl')))"

text \<open>
  A caller that awaits \<open>wait_if_needed\<close> before each send, called at the given times:
  the times at which its sends go out.
\<close>

fun send_times :: "int list \<Rightarrow> rate_limiter \<Rightarrow> int list" where
  "send_times [] rl = []"
| "send_times (t # ts) rl =
     (case wait_if_needed t t rl of
        (Returned None, rl') \<Rightarrow> t # send_times ts rl'
      | (Returned (Some secs), rl') \<Rightarrow> (t + secs * 1000000) # send_times ts rl'
      | (Raised e, rl') \<Rightarrow> [])"

section \<open>Observations used in the statements\<close>

text \<open>
  What one call of \<open>log_forward\<close> leaves behind: the row, when SQLite accepts it, or an
  error line in the operational log.
\<close>

definition written :: "env \<Rightarrow> forward_log \<Rightarrow> forward_log list" where
  "written env row = (case db_insert env row of None \<Rightarrow> [row] | Some e \<Rightarrow> [])"

definition write_errors :: "env \<Rightarrow> forward_log \<Rightarrow> log_line list" where
  "write_errors env row =
     (case db_insert env row of None \<Rightarrow> [] | Some e \<Rightarrow> [LogForwardFailed e])"

definition notify_errors :: "env \<Rightarrow> admin_text \<Rightarrow> int list \<Rightarrow> log_line list" where
  "notify_errors env txt as =
     concat (map (\<lambda>a. case send_message env a txt of None \<Rightarrow> []
                        | Some e \<Rightarrow> [NotifyAdminFailed a e]) as)"

text \<open>
  The album that \<open>forward_media_group\<close> builds for a batch, and the warnings written
  while building it.
\<close>

definition media_items :: "string option \<Rightarrow> (nat \<times> message) list \<Rightarrow> input_media list" where
  "media_items caption_text ims =
     concat (map (\<lambda>(i, m). case input_media_of m (if i = 0 \<and> truthy caption_text
                                                      then caption_text else None) of
                               Some im \<Rightarrow> [im] | None \<Rightarrow> []) ims)"

definition media_warnings :: "(nat \<times> message) list \<Rightarrow> log_line list" where
  "media_warnings ims =
     concat (map (\<lambda>(i, m). case input_media_of m None of
                               Some im \<Rightarrow> []
                             | None \<Rightarrow> [UnsupportedMediaType (get_message_type m)]) ims)"

definition album_caption :: "config \<Rightarrow> message list \<Rightarrow> string option" where
  "album_caption cfg messages =
     (if add_source_info cfg then Some (build_caption cfg (hd messages)) else None)"

definition album_media :: "config \<Rightarrow> message list \<Rightarrow> input_media list" where
  "album_media cfg messages = media_items (album_caption cfg messages) (enumerate 0 messages)"

text \<open>The caption argument of \<open>copy_message\<close> for a single message.\<close>

definition single_caption :: "config \<Rightarrow> message \<Rightarrow> string option" where
  "single_caption cfg m = (if add_source_info cfg then Some (build_caption cfg m) else None)"

text \<open>The text of the admin notification for a failed destination.\<close>

definition error_text :: "env \<Rightarrow> message \<Rightarrow> int \<Rightarrow> string \<Rightarrow> admin_text" where
  "error_text env m target_id error_msg =
     ErrorText (title_or_id m) target_id error_msg (strftime (now env))"

text \<open>
  The updates that deliver the messages \<open>ms\<close> one after the other, and the messages
  among them that the filter lets pass.
\<close>

definition arrivals :: "message list \<Rightarrow> event list" where
  "arrivals ms = map (\<lambda>m. Update (Some m)) ms"

definition passing :: "env \<Rightarrow> config \<Rightarrow> message list \<Rightarrow> message list" where
  "passing env cfg ms = filter (\<lambda>m. \<not> should_filter_message env cfg m (get_message_type m)) ms"

text \<open>The state after the optional \<open>asyncio.sleep(delay)\<close> of the dispatcher.\<close>

definition delayed :: "config \<Rightarrow> bot_state \<Rightarrow> bot_state" where
  "delayed cfg s =
     (if delay_seconds cfg > 0 then s\<lparr>slept := slept s @ [delay_seconds cfg]\<rparr> else s)"

section \<open>Concrete inputs\<close>

definition ex_date :: datetime where
  "ex_date = \<lparr>year = 2024, month = 1, day = 2, hour = 3, minute = 4, second = 5\<rparr>"

text \<open>A message of the source chat with no content yet, then with a photo, a video, a sticker.\<close>

definition ex_msg :: "int \<Rightarrow> string option \<Rightarrow> message" where
  "ex_msg i gid =
     \<lparr>message_id = i, chat_id = - 1001, chat_title = Some ''News'', media_group_id = gid,
      msg_text = None, caption = Some ''hello'', photo = [], video = None, document = None,
      audio = None, voice = False, sticker = False, animation = False, location = False,
      poll = False, from_user = Some \<lparr>user_id = 7, full_name = ''Bob''\<rparr>, date = ex_date\<rparr>"

definition ex_photo :: "int \<Rightarrow> string option \<Rightarrow> message" where
  "ex_photo i gid = (ex_msg i gid)\<lparr>photo := [''small'', ''large'']\<rparr>"

definition ex_video :: "int \<Rightarrow> string option \<Rightarrow> message" where
  "ex_video i gid = (ex_msg i gid)\<lparr>video := Some ''clip''\<rparr>"

definition ex_sticker :: "int \<Rightarrow> string option \<Rightarrow> message" where
  "ex_sticker i gid = (ex_msg i gid)\<lparr>sticker := True\<rparr>"

text \<open>
  A provider that accepts every send and answers an album with one sent message per
  item, a database that accepts every row; and the same with destination 200 refusing.
\<close>

definition ex_env :: env where
  "ex_env =
     \<lparr>copy_message = (\<lambda>t from_chat mid cap. Inr (mid + 1000)),
      send_media_group = (\<lambda>t media. Inr (map (\<lambda>(k, im). 9000 + int k) (enumerate 0 media))),
      send_message = (\<lambda>a txt. None),
      db_insert = (\<lambda>row. None),
      now = ex_date,
      str_lower = ascii_lower\<rparr>"

definition ex_env_refusing :: env where
  "ex_env_refusing =
     ex_env\<lparr>copy_message := (\<lambda>t from_chat mid cap. if t = 200 then Inl ''Forbidden'' else Inr (mid + 1000)),
            send_media_group := (\<lambda>t media. if t = 200 then Inl ''Forbidden''
                                   else Inr (map (\<lambda>(k, im). 9000 + int k) (enumerate 0 media)))\<rparr>"

definition ex_cfg :: config where
  "ex_cfg =
     \<lparr>admins = [1, 2], source_channels = [- 1001], target_channels = [100, 200, 300],
      preserve_sender = True, add_source_info = True, filter_content_types = [],
      keyword_filter = [], delay_seconds = 0, notify_admin_on_error = True\<rparr>"

definition ex_state :: bot_state where
  "ex_state =
     \<lparr>messages_received = 0, messages_forwarded = 0, failed_forwards = 0,
      media_groups_forwarded = 0, forward_logs = [], sent = [], notified = [], slept = [],
      oplog = [], media_groups = Map.empty, group_timers = Map.empty, emitted = []\<rparr>"

section \<open>Effects of the log, the notifier and the album builder\<close>

lemmas action_defs = returnM_def raiseM_def bindM_def try_except_def modify_def logger_def asyncio_sleep_def

lemma log_forward_eq:
  "log_forward env row s =
     (Returned (), s\<lparr>forward_logs := forward_logs s @ written env row,
                      oplog := oplog s @ write_errors env row\<rparr>)"
  by (simp add: log_forward_def sqlite_insert_def action_defs written_def write_errors_def split: option.splits)

lemma log_rows_eq:
  "for_each xs (\<lambda>x. log_forward env (f x)) s =
     (Returned (), s\<lparr>forward_logs := forward_logs s @ concat (map (\<lambda>x. written env (f x)) xs),
                      oplog := oplog s @ concat (map (\<lambda>x. write_errors env (f x)) xs)\<rparr>)"
  by (induction xs arbitrary: s) (simp_all add: returnM_def bindM_def log_forward_eq)

lemma notify_one_eq:
  "try_except (bot_send_message env a txt) (\<lambda>e. logger (NotifyAdminFailed a e)) s =
     (Returned (), s\<lparr>notified := notified s @ [(a, txt)],
                      oplog := oplog s @ (case send_message env a txt of None \<Rightarrow> [] | Some e \<Rightarrow> [NotifyAdminFailed a e])\<rparr>)"
  by (simp add: bot_send_message_def action_defs split: option.splits)

lemma notify_loop_eq:
  "for_each as (\<lambda>a. try_except (bot_send_message env a txt) (\<lambda>e. logger (NotifyAdminFailed a e))) s =
     (Returned (), s\<lparr>notified := notified s @ map (\<lambda>a. (a, txt)) as,
                      oplog := oplog s @ notify_errors env txt as\<rparr>)"
  by (induction as arbitrary: s) (simp_all add: returnM_def bindM_def notify_one_eq notify_errors_def)

lemma notify_admins_error_eq:
  "notify_admins_error env cfg m t e s =
     (Returned (),
      s\<lparr>notified := notified s @ map (\<lambda>a. (a, error_text env m t e)) (admins cfg),
        oplog := oplog s @ notify_errors env (error_text env m t e) (admins cfg)\<rparr>)"
  by (simp add: notify_admins_error_def notify_loop_eq error_text_def)

lemma input_media_of_None: "input_media_of m cap = None \<longleftrightarrow> input_media_of m None = None"
  by (simp add: input_media_of_def split: option.splits)

lemma create_input_media_eq:
  "create_input_media m cap s =
     (Returned (input_media_of m cap),
      s\<lparr>oplog := oplog s @ (case input_media_of m None of Some im \<Rightarrow> []
                             | None \<Rightarrow> [UnsupportedMediaType (get_message_type m)])\<rparr>)"
proof (cases "input_media_of m cap")
  case None
  then have "input_media_of m None = None" using input_media_of_None by blast
  with None show ?thesis by (simp add: create_input_media_def action_defs)
next
  case (Some im)
  then have "input_media_of m None \<noteq> None" using input_media_of_None[of m cap] by simp
  with Some show ?thesis by (auto simp add: create_input_media_def action_defs)
qed

lemma build_media_list_eq:
  "build_media_list cap ims acc s =
     (Returned (acc @ media_items cap ims), s\<lparr>oplog := oplog s @ media_warnings ims\<rparr>)"
proof (induction ims arbitrary: acc s)
  case Nil
  then show ?case by (simp add: returnM_def media_items_def media_warnings_def)
next
  case (Cons im ims)
  obtain i m where im: "im = (i, m)" by (cases im)
  show ?case
    unfolding im
    by (simp add: bindM_def create_input_media_eq Cons.IH media_items_def media_warnings_def
        split: option.splits)
qed


section \<open>Loops whose rounds all return\<close>

lemma for_each_returns:
  "(\<And>x s. fst (body x s) = Returned ()) \<Longrightarrow> fst (for_each xs body s) = Returned ()"
proof (induction xs arbitrary: s)
  case Nil
  then show ?case by (simp add: returnM_def)
next
  case (Cons x xs)
  have "fst (body x s) = Returned ()" by (rule Cons.prems)
  then obtain s' where "body x s = (Returned (), s')" by (cases "body x s") auto
  then show ?case using Cons.IH[OF Cons.prems] by (simp add: bindM_def)
qed

lemma for_each_appends:
  assumes "\<And>x s. fst (body x s) = Returned ()"
    and "\<And>x s. proj (snd (body x s)) = proj s @ g x"
  shows "proj (snd (for_each xs body s)) = proj s @ concat (map g xs)"
proof (induction xs arbitrary: s)
  case Nil
  then show ?case by (simp add: returnM_def)
next
  case (Cons x xs)
  obtain s' where b: "body x s = (Returned (), s')"
    using assms(1)[of x s] by (cases "body x s") auto
  then have "proj s' = proj s @ g x" using assms(2)[of x s] by simp
  then show ?case using Cons.IH[of s'] b by (simp add: bindM_def)
qed

lemma for_each_keeps:
  assumes "\<And>x s. fst (body x s) = Returned ()"
    and "\<And>x s. proj (snd (body x s)) = proj s"
  shows "proj (snd (for_each xs body s)) = proj s"
proof (induction xs arbitrary: s)
  case Nil
  then show ?case by (simp add: returnM_def)
next
  case (Cons x xs)
  obtain s' where b: "body x s = (Returned (), s')"
    using assms(1)[of x s] by (cases "body x s") auto
  then have "proj s' = proj s" using assms(2)[of x s] by simp
  then show ?case using Cons.IH[of s'] b by (simp add: bindM_def)
qed

lemma for_each_adds:
  fixes proj :: "bot_state \<Rightarrow> nat"
  assumes "\<And>x s. fst (body x s) = Returned ()"
    and "\<And>x s. proj (snd (body x s)) = proj s + g x"
  shows "proj (snd (for_each xs body s)) = proj s + sum_list (map g xs)"
proof (induction xs arbitrary: s)
  case Nil
  then show ?case by (simp add: returnM_def)
next
  case (Cons x xs)
  obtain s' where b: "body x s = (Returned (), s')"
    using assms(1)[of x s] by (cases "body x s") auto
  then have "proj s' = proj s + g x" using assms(2)[of x s] by simp
  then show ?case using Cons.IH[of s'] b by (simp add: bindM_def)
qed


section \<open>One destination of a single message\<close>

lemmas single_defs = forward_single_to_def bot_copy_message_def action_defs log_forward_eq
  notify_admins_error_eq single_caption_def Let_def

lemma forward_single_to_fst:
  "fst (forward_single_to env cfg m ctype t s) = Returned ()"
  by (simp add: single_defs split: sum.splits)

lemma forward_single_to_sent:
  "sent (snd (forward_single_to env cfg m ctype t s)) =
     sent s @ [CopyMessage t (chat_id m) (message_id m)
                 (single_caption cfg m)]"
  by (simp add: single_defs split: sum.splits)

lemma forward_single_to_logs:
  "forward_logs (snd (forward_single_to env cfg m ctype t s)) =
     forward_logs s @
       (case copy_message env t (chat_id m) (message_id m)
               (single_caption cfg m) of
          Inr fwd \<Rightarrow> written env (log_row (chat_id m) t (message_id m) (Some fwd) ctype (media_group_id m) False True None)
        | Inl e \<Rightarrow> written env (log_row (chat_id m) t (message_id m) None ctype (media_group_id m) False False (Some e)))"
  by (simp add: single_defs split: sum.splits)

lemma forward_single_to_notified:
  "notified (snd (forward_single_to env cfg m ctype t s)) =
     notified s @
       (case copy_message env t (chat_id m) (message_id m)
               (single_caption cfg m) of
          Inr fwd \<Rightarrow> []
        | Inl e \<Rightarrow> if notify_admin_on_error cfg
                   then map (\<lambda>a. (a, error_text env m t e)) (admins cfg)
                   else [])"
  by (simp add: single_defs split: sum.splits)


section \<open>One destination of an album\<close>

lemma getitem0_nonempty: "xs \<noteq> [] \<Longrightarrow> getitem0 xs s = (Returned (hd xs), s)"
  by (cases xs) (simp_all add: getitem0_def returnM_def)

lemma log_pairs_eq:
  "for_each ps (\<lambda>(a, b). log_forward env (f a b)) s =
     (Returned (), s\<lparr>forward_logs := forward_logs s @ concat (map (\<lambda>(a, b). written env (f a b)) ps),
                      oplog := oplog s @ concat (map (\<lambda>(a, b). write_errors env (f a b)) ps)\<rparr>)"
  by (induction ps arbitrary: s) (auto simp add: returnM_def bindM_def log_forward_eq)

lemmas album_defs = forward_media_group_to_def bot_send_media_group_def action_defs
  log_forward_eq log_rows_eq log_pairs_eq notify_admins_error_eq build_media_list_eq getitem0_nonempty
  album_media_def album_caption_def Let_def

lemma forward_media_group_to_fst:
  "messages \<noteq> [] \<Longrightarrow> fst (forward_media_group_to env cfg messages t s) = Returned ()"
  by (simp add: album_defs split: sum.splits)

lemma forward_media_group_to_sent:
  "messages \<noteq> [] \<Longrightarrow>
   sent (snd (forward_media_group_to env cfg messages t s)) =
     sent s @ (if album_media cfg messages \<noteq> [] then [SendMediaGroup t (album_media cfg messages)] else [])"
  by (simp add: album_defs split: sum.splits)

lemma forward_media_group_to_logs:
  "messages \<noteq> [] \<Longrightarrow>
   forward_logs (snd (forward_media_group_to env cfg messages t s)) =
     forward_logs s @
       (if album_media cfg messages = [] then []
        else case send_media_group env t (album_media cfg messages) of
               Inr ids \<Rightarrow>
                 concat (map (\<lambda>(m, i). written env
                                (log_row (chat_id m) t (message_id m) (Some i) (get_message_type m)
                                   (media_group_id m) True True None)) (zip messages ids))
             | Inl e \<Rightarrow>
                 concat (map (\<lambda>m. written env
                                (log_row (chat_id m) t (message_id m) None (get_message_type m)
                                   (media_group_id m) True False (Some e))) messages))"
  by (simp add: album_defs split: sum.splits)

lemma forward_media_group_to_notified:
  "messages \<noteq> [] \<Longrightarrow>
   notified (snd (forward_media_group_to env cfg messages t s)) =
     notified s @
       (if album_media cfg messages = [] then []
        else case send_media_group env t (album_media cfg messages) of
               Inr ids \<Rightarrow> []
             | Inl e \<Rightarrow> if notify_admin_on_error cfg
                        then map (\<lambda>a. (a, error_text env (hd messages) t e)) (admins cfg)
                        else [])"
  by (simp add: album_defs split: sum.splits)


section \<open>What the dispatcher leaves alone, its counters, and its loops\<close>

lemma forward_single_to_frame:
  "media_groups (snd (forward_single_to env cfg m ctype t s)) = media_groups s"
  "group_timers (snd (forward_single_to env cfg m ctype t s)) = group_timers s"
  "emitted (snd (forward_single_to env cfg m ctype t s)) = emitted s"
  "slept (snd (forward_single_to env cfg m ctype t s)) = slept s"
  "messages_received (snd (forward_single_to env cfg m ctype t s)) = messages_received s"
  by (simp_all add: single_defs split: sum.splits)

lemma forward_single_to_stats:
  "messages_forwarded (snd (forward_single_to env cfg m ctype t s)) =
     messages_forwarded s +
       (case copy_message env t (chat_id m) (message_id m) (single_caption cfg m) of
          Inr fwd \<Rightarrow> 1 | Inl e \<Rightarrow> 0)"
  "failed_forwards (snd (forward_single_to env cfg m ctype t s)) =
     failed_forwards s +
       (case copy_message env t (chat_id m) (message_id m) (single_caption cfg m) of
          Inr fwd \<Rightarrow> 0 | Inl e \<Rightarrow> 1)"
  "media_groups_forwarded (snd (forward_single_to env cfg m ctype t s)) = media_groups_forwarded s"
  by (simp_all add: single_defs split: sum.splits)

lemma forward_media_group_to_frame:
  assumes "messages \<noteq> []"
  shows "media_groups (snd (forward_media_group_to env cfg messages t s)) = media_groups s"
    and "group_timers (snd (forward_media_group_to env cfg messages t s)) = group_timers s"
    and "emitted (snd (forward_media_group_to env cfg messages t s)) = emitted s"
    and "slept (snd (forward_media_group_to env cfg messages t s)) = slept s"
    and "messages_received (snd (forward_media_group_to env cfg messages t s)) = messages_received s"
  using assms by (simp_all add: album_defs split: sum.splits)

lemma forward_media_group_to_stats:
  assumes "messages \<noteq> []"
  shows "messages_forwarded (snd (forward_media_group_to env cfg messages t s)) =
     messages_forwarded s +
       (if album_media cfg messages = [] then 0
        else case send_media_group env t (album_media cfg messages) of
               Inr ids \<Rightarrow> length messages | Inl e \<Rightarrow> 0)"
    and "failed_forwards (snd (forward_media_group_to env cfg messages t s)) =
     failed_forwards s +
       (if album_media cfg messages = [] then 0
        else case send_media_group env t (album_media cfg messages) of
               Inr ids \<Rightarrow> 0 | Inl e \<Rightarrow> length messages)"
    and "media_groups_forwarded (snd (forward_media_group_to env cfg messages t s)) =
     media_groups_forwarded s +
       (if album_media cfg messages = [] then 0
        else case send_media_group env t (album_media cfg messages) of
               Inr ids \<Rightarrow> 1 | Inl e \<Rightarrow> 0)"
  using assms by (simp_all add: album_defs split: sum.splits)

text \<open>The loops over the destinations.\<close>

lemma forward_single_message_fst:
  "fst (forward_single_message env cfg m s) = Returned ()"
  by (simp add: forward_single_message_def Let_def for_each_returns forward_single_to_fst)

lemma forward_single_message_sent:
  "sent (snd (forward_single_message env cfg m s)) =
     sent s @ map (\<lambda>t. CopyMessage t (chat_id m) (message_id m) (single_caption cfg m))
                (target_channels cfg)"
  unfolding forward_single_message_def Let_def
  by (subst for_each_appends[where proj = sent, OF forward_single_to_fst forward_single_to_sent])
     (simp add: concat_map_singleton)

lemma forward_single_message_logs:
  "forward_logs (snd (forward_single_message env cfg m s)) =
     forward_logs s @
       concat (map (\<lambda>t. case copy_message env t (chat_id m) (message_id m) (single_caption cfg m) of
                           Inr fwd \<Rightarrow> written env (log_row (chat_id m) t (message_id m) (Some fwd)
                                        (get_message_type m) (media_group_id m) False True None)
                         | Inl e \<Rightarrow> written env (log_row (chat_id m) t (message_id m) None
                                        (get_message_type m) (media_group_id m) False False (Some e)))
                (target_channels cfg))"
  unfolding forward_single_message_def Let_def
  by (rule for_each_appends[where proj = forward_logs, OF forward_single_to_fst forward_single_to_logs])

lemma forward_single_message_notified:
  "notified (snd (forward_single_message env cfg m s)) =
     notified s @
       concat (map (\<lambda>t. case copy_message env t (chat_id m) (message_id m) (single_caption cfg m) of
                           Inr fwd \<Rightarrow> []
                         | Inl e \<Rightarrow> if notify_admin_on_error cfg
                                    then map (\<lambda>a. (a, error_text env m t e)) (admins cfg)
                                    else [])
                (target_channels cfg))"
  unfolding forward_single_message_def Let_def
  by (rule for_each_appends[where proj = notified, OF forward_single_to_fst forward_single_to_notified])

lemma forward_single_message_frame:
  "media_groups (snd (forward_single_message env cfg m s)) = media_groups s"
  "group_timers (snd (forward_single_message env cfg m s)) = group_timers s"
  "emitted (snd (forward_single_message env cfg m s)) = emitted s"
  "slept (snd (forward_single_message env cfg m s)) = slept s"
  "messages_received (snd (forward_single_message env cfg m s)) = messages_received s"
  unfolding forward_single_message_def Let_def
  by (rule for_each_keeps[OF forward_single_to_fst], rule forward_single_to_frame)+

lemma forward_single_message_stats:
  "messages_forwarded (snd (forward_single_message env cfg m s)) =
     messages_forwarded s +
       sum_list (map (\<lambda>t. case copy_message env t (chat_id m) (message_id m) (single_caption cfg m) of
                            Inr fwd \<Rightarrow> 1 | Inl e \<Rightarrow> 0) (target_channels cfg))"
  "failed_forwards (snd (forward_single_message env cfg m s)) =
     failed_forwards s +
       sum_list (map (\<lambda>t. case copy_message env t (chat_id m) (message_id m) (single_caption cfg m) of
                            Inr fwd \<Rightarrow> 0 | Inl e \<Rightarrow> 1) (target_channels cfg))"
  "media_groups_forwarded (snd (forward_single_message env cfg m s)) = media_groups_forwarded s"
  unfolding forward_single_message_def Let_def
    apply (rule for_each_adds[where proj = messages_forwarded, OF forward_single_to_fst forward_single_to_stats(1)])
   apply (rule for_each_adds[where proj = failed_forwards, OF forward_single_to_fst forward_single_to_stats(2)])
  apply (rule for_each_keeps[where proj = media_groups_forwarded, OF forward_single_to_fst forward_single_to_stats(3)])
  done


lemma forward_media_group_fst:
  "messages \<noteq> [] \<Longrightarrow> fst (forward_media_group env cfg messages s) = Returned ()"
  by (simp add: forward_media_group_def Let_def for_each_returns forward_media_group_to_fst)

lemma forward_media_group_sent:
  assumes "messages \<noteq> []"
  shows "sent (snd (forward_media_group env cfg messages s)) =
     sent s @ (if album_media cfg messages \<noteq> []
               then map (\<lambda>t. SendMediaGroup t (album_media cfg messages)) (target_channels cfg)
               else [])"
  unfolding forward_media_group_def Let_def
  by (subst for_each_appends[where proj = sent,
        OF forward_media_group_to_fst[OF assms] forward_media_group_to_sent[OF assms]])
     (simp add: concat_map_singleton)

lemma forward_media_group_logs:
  assumes "messages \<noteq> []"
  shows "forward_logs (snd (forward_media_group env cfg messages s)) =
     forward_logs s @
       concat (map (\<lambda>t.
          if album_media cfg messages = [] then []
          else case send_media_group env t (album_media cfg messages) of
               Inr ids \<Rightarrow>
                 concat (map (\<lambda>(m, i). written env
                                (log_row (chat_id m) t (message_id m) (Some i) (get_message_type m)
                                   (media_group_id m) True True None)) (zip messages ids))
             | Inl e \<Rightarrow>
                 concat (map (\<lambda>m. written env
                                (log_row (chat_id m) t (message_id m) None (get_message_type m)
                                   (media_group_id m) True False (Some e))) messages))
          (target_channels cfg))"
  unfolding forward_media_group_def Let_def
  by (rule for_each_appends[where proj = forward_logs,
        OF forward_media_group_to_fst[OF assms] forward_media_group_to_logs[OF assms]])

lemma forward_media_group_notified:
  assumes "messages \<noteq> []"
  shows "notified (snd (forward_media_group env cfg messages s)) =
     notified s @
       concat (map (\<lambda>t.
          if album_media cfg messages = [] then []
          else case send_media_group env t (album_media cfg messages) of
               Inr ids \<Rightarrow> []
             | Inl e \<Rightarrow> if notify_admin_on_error cfg
                        then map (\<lambda>a. (a, error_text env (hd messages) t e)) (admins cfg)
                        else [])
          (target_channels cfg))"
  unfolding forward_media_group_def Let_def
  by (rule for_each_appends[where proj = notified,
        OF forward_media_group_to_fst[OF assms] forward_media_group_to_notified[OF assms]])

lemma forward_media_group_frame:
  assumes "messages \<noteq> []"
  shows "media_groups (snd (forward_media_group env cfg messages s)) = media_groups s"
    and "group_timers (snd (forward_media_group env cfg messages s)) = group_timers s"
    and "emitted (snd (forward_media_group env cfg messages s)) = emitted s"
    and "slept (snd (forward_media_group env cfg messages s)) = slept s"
    and "messages_received (snd (forward_media_group env cfg messages s)) = messages_received s"
  unfolding forward_media_group_def Let_def
  by (rule for_each_keeps[OF forward_media_group_to_fst[OF assms]],
      rule forward_media_group_to_frame[OF assms])+

lemma forward_media_group_stats:
  assumes "messages \<noteq> []"
  shows "messages_forwarded (snd (forward_media_group env cfg messages s)) =
     messages_forwarded s +
       sum_list (map (\<lambda>t. if album_media cfg messages = [] then 0
                           else case send_media_group env t (album_media cfg messages) of
                                  Inr ids \<Rightarrow> length messages | Inl e \<Rightarrow> 0) (target_channels cfg))"
    and "failed_forwards (snd (forward_media_group env cfg messages s)) =
     failed_forwards s +
       sum_list (map (\<lambda>t. if album_media cfg messages = [] then 0
                           else case send_media_group env t (album_media cfg messages) of
                                  Inr ids \<Rightarrow> 0 | Inl e \<Rightarrow> length messages) (target_channels cfg))"
    and "media_groups_forwarded (snd (forward_media_group env cfg messages s)) =
     media_groups_forwarded s +
       sum_list (map (\<lambda>t. if album_media cfg messages = [] then 0
                           else case send_media_group env t (album_media cfg messages) of
                                  Inr ids \<Rightarrow> 1 | Inl e \<Rightarrow> 0) (target_channels cfg))"
  unfolding forward_media_group_def Let_def
    apply (rule for_each_adds[where proj = messages_forwarded,
        OF forward_media_group_to_fst[OF assms] forward_media_group_to_stats(1)[OF assms]])
   apply (rule for_each_adds[where proj = failed_forwards,
        OF forward_media_group_to_fst[OF assms] forward_media_group_to_stats(2)[OF assms]])
  apply (rule for_each_adds[where proj = media_groups_forwarded,
        OF forward_media_group_to_fst[OF assms] forward_media_group_to_stats(3)[OF assms]])
  done

text \<open>The dispatcher's entry point, by the path it takes.\<close>

lemma forward_messages_group_album:
  assumes "messages \<noteq> []" "target_channels cfg \<noteq> []"
    "length messages > 1 \<and> truthy (media_group_id (hd messages))"
  shows "forward_messages_group env cfg messages s = forward_media_group env cfg messages (delayed cfg s)"
  using assms by (simp add: forward_messages_group_def Let_def action_defs delayed_def)

lemma forward_messages_group_single:
  assumes "messages \<noteq> []" "target_channels cfg \<noteq> []"
    "\<not> (length messages > 1 \<and> truthy (media_group_id (hd messages)))"
  shows "forward_messages_group env cfg messages s =
           forward_single_message env cfg (hd messages) (delayed cfg s)"
  using assms by (auto simp add: forward_messages_group_def Let_def action_defs delayed_def getitem0_nonempty)

lemma forward_messages_group_nothing:
  assumes "messages = [] \<or> target_channels cfg = []"
  shows "forward_messages_group env cfg messages s = (Returned (), s)"
  using assms by (auto simp add: forward_messages_group_def Let_def returnM_def)

lemma forward_messages_group_fst:
  "fst (forward_messages_group env cfg messages s) = Returned ()"
proof (cases "messages = [] \<or> target_channels cfg = []")
  case True
  then show ?thesis by (simp add: forward_messages_group_nothing)
next
  case False
  then show ?thesis
    by (cases "length messages > 1 \<and> truthy (media_group_id (hd messages))")
       (simp_all add: forward_messages_group_album forward_messages_group_single
          forward_media_group_fst forward_single_message_fst)
qed

lemma forward_messages_group_frame:
  "media_groups (snd (forward_messages_group env cfg messages s)) = media_groups s"
  "group_timers (snd (forward_messages_group env cfg messages s)) = group_timers s"
  "emitted (snd (forward_messages_group env cfg messages s)) = emitted s"
  "messages_received (snd (forward_messages_group env cfg messages s)) = messages_received s"
proof -
  have "media_groups (snd (forward_messages_group env cfg messages s)) = media_groups s
      \<and> group_timers (snd (forward_messages_group env cfg messages s)) = group_timers s
      \<and> emitted (snd (forward_messages_group env cfg messages s)) = emitted s
      \<and> messages_received (snd (forward_messages_group env cfg messages s)) = messages_received s"
  proof (cases "messages = [] \<or> target_channels cfg = []")
    case True
    then show ?thesis by (simp add: forward_messages_group_nothing)
  next
    case False
    then show ?thesis
      by (cases "length messages > 1 \<and> truthy (media_group_id (hd messages))")
         (simp_all add: forward_messages_group_album forward_messages_group_single
            forward_media_group_frame forward_single_message_frame delayed_def)
  qed
  then show "media_groups (snd (forward_messages_group env cfg messages s)) = media_groups s"
    "group_timers (snd (forward_messages_group env cfg messages s)) = group_timers s"
    "emitted (snd (forward_messages_group env cfg messages s)) = emitted s"
    "messages_received (snd (forward_messages_group env cfg messages s)) = messages_received s"
    by simp_all
qed


section \<open>Evaluation of the concrete inputs\<close>

lemmas ex_defs = ex_date_def ex_msg_def ex_photo_def ex_video_def ex_sticker_def ex_env_def
  ex_env_refusing_def ex_cfg_def ex_state_def

section \<open>The dispatcher with nothing to do\<close>

text \<open>
  C10: if the list of target channels is empty, or the batch is empty,
  \<open>forward_messages_group\<close> returns at once and the state is the one it was called in:
  no delay was slept, no send attempted, no row written, no counter changed.
\<close>

theorem empty_dispatch_is_noop:
  "messages = [] \<or> target_channels cfg = [] \<Longrightarrow>
   forward_messages_group env cfg messages s = (Returned (), s)"
  by (auto simp add: forward_messages_group_def Let_def returnM_def)

text \<open>
  With a delay of 5 seconds configured: no targets, then no messages, leave the state
  as it was; with targets and a message the delay is slept.
\<close>

theorem empty_dispatch_is_noop_witness:
  "forward_messages_group ex_env (ex_cfg\<lparr>target_channels := [], delay_seconds := 5\<rparr>)
     [ex_photo 1 None] ex_state = (Returned (), ex_state)
   \<and> forward_messages_group ex_env (ex_cfg\<lparr>delay_seconds := 5\<rparr>) [] ex_state = (Returned (), ex_state)
   \<and> slept (snd (forward_messages_group ex_env (ex_cfg\<lparr>delay_seconds := 5\<rparr>) [ex_photo 1 None] ex_state)) = [5]"
  using empty_dispatch_is_noop[of "[ex_photo 1 None]" "ex_cfg\<lparr>target_channels := [], delay_seconds := 5\<rparr>" ex_env ex_state]
    empty_dispatch_is_noop[of "[]" "ex_cfg\<lparr>delay_seconds := 5\<rparr>" ex_env ex_state]
  by (simp add: forward_messages_group_single forward_single_message_frame delayed_def ex_cfg_def ex_state_def)

section \<open>The caption\<close>

text \<open>
  Whatever the settings, \<open>build_caption\<close> returns the original caption and nothing
  else: every piece of source information it appends is the empty string.
\<close>

lemma build_caption_is_caption:
  "build_caption cfg m = (case caption m of Some c \<Rightarrow> c | None \<Rightarrow> [])"
  by (cases "caption m") (simp_all add: build_caption_def Let_def)

text \<open>
  C3: with add-source-info and preserve-sender both enabled, the caption built for a
  message should contain the original caption, the sender's name and a timestamp. For
  the message with caption "hello" sent by Bob on 2024-01-02 03:04:05 the caption built
  is "hello": it contains neither the sender's name nor the timestamp.
\<close>

theorem build_caption_omits_sender_and_time:
  "add_source_info ex_cfg \<and> preserve_sender ex_cfg
   \<and> from_user (ex_photo 1 None) = Some \<lparr>user_id = 7, full_name = ''Bob''\<rparr>
   \<and> strftime (date (ex_photo 1 None)) = ''2024-01-02 03:04:05''
   \<and> build_caption ex_cfg (ex_photo 1 None) = ''hello''
   \<and> \<not> str_contains ''Bob'' (build_caption ex_cfg (ex_photo 1 None))
   \<and> \<not> str_contains ''2024-01-02 03:04:05'' (build_caption ex_cfg (ex_photo 1 None))"
  by (simp add: build_caption_is_caption ex_defs strftime_def zfill_def str_nat.simps digit_char_def)

section \<open>The rate limiter\<close>

text \<open>
  \<open>acquire\<close> keeps the timestamps of the last 60 seconds, admits a request only while
  fewer than \<open>max_per_minute\<close> of them are left, and records the request it admits.
\<close>

lemma acquire_window:
  "\<forall>r \<in> set (requests (snd (acquire now_t rl))). now_t - r < 60000000"
  by (auto simp add: acquire_def Let_def)

lemma acquire_admits_under_limit:
  "fst (acquire now_t rl) \<longleftrightarrow>
     int (length (filter (\<lambda>r. now_t - r < 60000000) (requests rl))) < max_per_minute rl"
  by (auto simp add: acquire_def Let_def)

lemma acquire_records_admitted:
  "fst (acquire now_t rl) \<Longrightarrow>
     requests (snd (acquire now_t rl)) = filter (\<lambda>r. now_t - r < 60000000) (requests rl) @ [now_t]"
  by (auto simp add: acquire_def Let_def split: if_splits)

lemma acquire_within_limit:
  "fst (acquire now_t rl) \<Longrightarrow> int (length (requests (snd (acquire now_t rl)))) \<le> max_per_minute rl"
  by (auto simp add: acquire_def Let_def split: if_splits)

text \<open>
  \<open>wait_if_needed\<close> leaves the timestamps as \<open>acquire\<close> left them: a caller that had to
  sleep is not recorded.
\<close>

lemma wait_if_needed_requests:
  "requests (snd (wait_if_needed now1 now2 rl)) = requests (snd (acquire now1 rl))"
  by (auto simp add: wait_if_needed_def split: prod.splits bool.splits list.splits)


text \<open>
  C8: the rate limiter should admit at most \<open>max_per_minute\<close> sends in any window of
  60 seconds. With a limit of one send per minute and a caller that awaits
  \<open>wait_if_needed\<close> at 0 s, 10 s and 61 s, the sends go out at 0 s, 60 s and 61 s: the
  second call sleeps 50 seconds and returns without recording a timestamp, so the
  third call finds the window empty. Two sends fall within one second.
\<close>

theorem wait_if_needed_admits_unrecorded_send:
  "send_times [0, 10000000, 61000000] \<lparr>max_per_minute = 1, requests = []\<rparr>
     = [0, 60000000, 61000000]
   \<and> length (filter (\<lambda>t. 61000000 - t < 60000000)
        (send_times [0, 10000000, 61000000] \<lparr>max_per_minute = 1, requests = []\<rparr>)) = 2"
  by (simp add: wait_if_needed_def acquire_def timedelta_seconds_def Let_def)

section \<open>The delivery log never raises\<close>

text \<open>
  The sends, the notifications and the counters of a dispatch do not depend on what the
  database answers.
\<close>

lemma error_text_db [simp]: "error_text (env\<lparr>db_insert := d\<rparr>) = error_text env"
  by (simp add: error_text_def fun_eq_iff)

lemma dispatch_independent_of_db:
  "sent (snd (forward_messages_group (env\<lparr>db_insert := d\<rparr>) cfg messages s)) =
     sent (snd (forward_messages_group env cfg messages s))"
  "notified (snd (forward_messages_group (env\<lparr>db_insert := d\<rparr>) cfg messages s)) =
     notified (snd (forward_messages_group env cfg messages s))"
  "messages_forwarded (snd (forward_messages_group (env\<lparr>db_insert := d\<rparr>) cfg messages s)) =
     messages_forwarded (snd (forward_messages_group env cfg messages s))"
  "failed_forwards (snd (forward_messages_group (env\<lparr>db_insert := d\<rparr>) cfg messages s)) =
     failed_forwards (snd (forward_messages_group env cfg messages s))"
  "media_groups_forwarded (snd (forward_messages_group (env\<lparr>db_insert := d\<rparr>) cfg messages s)) =
     media_groups_forwarded (snd (forward_messages_group env cfg messages s))"
proof -
  consider (nothing) "messages = [] \<or> target_channels cfg = []"
    | (album) "messages \<noteq> []" "target_channels cfg \<noteq> []"
        "length messages > 1 \<and> truthy (media_group_id (hd messages))"
    | (single) "messages \<noteq> []" "target_channels cfg \<noteq> []"
        "\<not> (length messages > 1 \<and> truthy (media_group_id (hd messages)))"
    by blast
  then have "sent (snd (forward_messages_group (env\<lparr>db_insert := d\<rparr>) cfg messages s)) =
       sent (snd (forward_messages_group env cfg messages s))
     \<and> notified (snd (forward_messages_group (env\<lparr>db_insert := d\<rparr>) cfg messages s)) =
       notified (snd (forward_messages_group env cfg messages s))
     \<and> messages_forwarded (snd (forward_messages_group (env\<lparr>db_insert := d\<rparr>) cfg messages s)) =
       messages_forwarded (snd (forward_messages_group env cfg messages s))
     \<and> failed_forwards (snd (forward_messages_group (env\<lparr>db_insert := d\<rparr>) cfg messages s)) =
       failed_forwards (snd (forward_messages_group env cfg messages s))
     \<and> media_groups_forwarded (snd (forward_messages_group (env\<lparr>db_insert := d\<rparr>) cfg messages s)) =
       media_groups_forwarded (snd (forward_messages_group env cfg messages s))"
  proof cases
    case nothing
    then show ?thesis by (simp add: forward_messages_group_nothing)
  next
    case album
    then show ?thesis
      by (simp add: forward_messages_group_album forward_media_group_sent
          forward_media_group_notified forward_media_group_stats cong: if_cong sum.case_cong)
  next
    case single
    then show ?thesis
      by (simp add: forward_messages_group_single forward_single_message_sent
          forward_single_message_notified forward_single_message_stats cong: if_cong sum.case_cong)
  qed
  then show
    "sent (snd (forward_messages_group (env\<lparr>db_insert := d\<rparr>) cfg messages s)) =
       sent (snd (forward_messages_group env cfg messages s))"
    "notified (snd (forward_messages_group (env\<lparr>db_insert := d\<rparr>) cfg messages s)) =
       notified (snd (forward_messages_group env cfg messages s))"
    "messages_forwarded (snd (forward_messages_group (env\<lparr>db_insert := d\<rparr>) cfg messages s)) =
       messages_forwarded (snd (forward_messages_group env cfg messages s))"
    "failed_forwards (snd (forward_messages_group (env\<lparr>db_insert := d\<rparr>) cfg messages s)) =
       failed_forwards (snd (forward_messages_group env cfg messages s))"
    "media_groups_forwarded (snd (forward_messages_group (env\<lparr>db_insert := d\<rparr>) cfg messages s)) =
       media_groups_forwarded (snd (forward_messages_group env cfg messages s))"
    by simp_all
qed

text \<open>
  C9: whatever the database does with a row, \<open>log_forward\<close> returns to its caller:
  either the row is in the table, or the failure is written to the operational log
  and nothing else changes. The dispatch that calls it returns too, and attempts the
  same sends, sends the same notifications and counts the same as it does with a
  database that accepts every row.
\<close>

theorem log_forward_never_raises:
  "fst (log_forward env row s) = Returned ()
   \<and> snd (log_forward env row s) =
       (case db_insert env row of
          None \<Rightarrow> s\<lparr>forward_logs := forward_logs s @ [row]\<rparr>
        | Some e \<Rightarrow> s\<lparr>oplog := oplog s @ [LogForwardFailed e]\<rparr>)
   \<and> fst (forward_messages_group env cfg messages s) = Returned ()
   \<and> sent (snd (forward_messages_group env cfg messages s)) =
       sent (snd (forward_messages_group (env\<lparr>db_insert := (\<lambda>row. None)\<rparr>) cfg messages s))
   \<and> notified (snd (forward_messages_group env cfg messages s)) =
       notified (snd (forward_messages_group (env\<lparr>db_insert := (\<lambda>row. None)\<rparr>) cfg messages s))
   \<and> messages_forwarded (snd (forward_messages_group env cfg messages s)) =
       messages_forwarded (snd (forward_messages_group (env\<lparr>db_insert := (\<lambda>row. None)\<rparr>) cfg messages s))
   \<and> failed_forwards (snd (forward_messages_group env cfg messages s)) =
       failed_forwards (snd (forward_messages_group (env\<lparr>db_insert := (\<lambda>row. None)\<rparr>) cfg messages s))
   \<and> media_groups_forwarded (snd (forward_messages_group env cfg messages s)) =
       media_groups_forwarded (snd (forward_messages_group (env\<lparr>db_insert := (\<lambda>row. None)\<rparr>) cfg messages s))"
proof -
  have "log_forward env row s =
          (Returned (), case db_insert env row of
             None \<Rightarrow> s\<lparr>forward_logs := forward_logs s @ [row]\<rparr>
           | Some e \<Rightarrow> s\<lparr>oplog := oplog s @ [LogForwardFailed e]\<rparr>)"
    by (simp add: log_forward_def sqlite_insert_def action_defs split: option.splits)
  then show ?thesis
    by (simp add: forward_messages_group_fst dispatch_independent_of_db)
qed

text \<open>
  With a database that refuses every row: the row is not written, the failure is
  reported, and the dispatch of one photo still reaches the three destinations.
\<close>

theorem log_forward_never_raises_witness:
  "fst (log_forward (ex_env\<lparr>db_insert := (\<lambda>row. Some ''database is locked'')\<rparr>)
          (log_row (- 1001) 100 1 (Some 1001) ''photo'' None False True None) ex_state) = Returned ()
   \<and> forward_logs (snd (log_forward (ex_env\<lparr>db_insert := (\<lambda>row. Some ''database is locked'')\<rparr>)
          (log_row (- 1001) 100 1 (Some 1001) ''photo'' None False True None) ex_state)) = []
   \<and> oplog (snd (log_forward (ex_env\<lparr>db_insert := (\<lambda>row. Some ''database is locked'')\<rparr>)
          (log_row (- 1001) 100 1 (Some 1001) ''photo'' None False True None) ex_state))
       = [LogForwardFailed ''database is locked'']
   \<and> fst (forward_messages_group (ex_env\<lparr>db_insert := (\<lambda>row. Some ''database is locked'')\<rparr>) ex_cfg
          [ex_photo 1 None] ex_state) = Returned ()
   \<and> map call_target (sent (snd (forward_messages_group
          (ex_env\<lparr>db_insert := (\<lambda>row. Some ''database is locked'')\<rparr>) ex_cfg
          [ex_photo 1 None] ex_state))) = [100, 200, 300]
   \<and> messages_forwarded (snd (forward_messages_group
          (ex_env\<lparr>db_insert := (\<lambda>row. Some ''database is locked'')\<rparr>) ex_cfg
          [ex_photo 1 None] ex_state)) = 3"
  using log_forward_never_raises[of "ex_env\<lparr>db_insert := (\<lambda>row. Some ''database is locked'')\<rparr>"
      "log_row (- 1001) 100 1 (Some 1001) ''photo'' None False True None" ex_state ex_cfg
      "[ex_photo 1 None]"]
  by (simp add: forward_messages_group_single forward_single_message_sent
      forward_single_message_stats delayed_def ex_defs)


section \<open>Failure of one destination\<close>

text \<open>
  C4: a dispatch never raises, whatever the provider does. Of a single message, one
  \<open>copy_message\<close> is attempted for every destination, in the order of the list; of an
  album with at least one item, one \<open>send_media_group\<close> for every destination. So a
  refusal by one destination does not keep the later ones from being attempted. For
  every destination whose send raises with text \<open>e\<close>, the failure row with that text
  is logged for each message (it is in the table when the database accepts it), and,
  when error notifications are enabled, every configured admin is sent the
  notification for that destination and error.
\<close>

theorem destination_failure_isolated:
  "fst (forward_messages_group env cfg messages s) = Returned ()
   \<and> fst (forward_single_message env cfg m s) = Returned ()
   \<and> sent (snd (forward_single_message env cfg m s)) =
       sent s @ map (\<lambda>t. CopyMessage t (chat_id m) (message_id m) (single_caption cfg m))
                  (target_channels cfg)
   \<and> (\<forall>t \<in> set (target_channels cfg). \<forall>e.
         copy_message env t (chat_id m) (message_id m) (single_caption cfg m) = Inl e \<longrightarrow>
           (db_insert env (log_row (chat_id m) t (message_id m) None (get_message_type m)
                             (media_group_id m) False False (Some e)) = None \<longrightarrow>
              log_row (chat_id m) t (message_id m) None (get_message_type m)
                (media_group_id m) False False (Some e)
                \<in> set (forward_logs (snd (forward_single_message env cfg m s))))
           \<and> (notify_admin_on_error cfg \<longrightarrow>
                (\<forall>a \<in> set (admins cfg).
                   (a, error_text env m t e) \<in> set (notified (snd (forward_single_message env cfg m s))))))
   \<and> (messages \<noteq> [] \<longrightarrow>
        fst (forward_media_group env cfg messages s) = Returned ()
        \<and> sent (snd (forward_media_group env cfg messages s)) =
            sent s @ (if album_media cfg messages \<noteq> []
                      then map (\<lambda>t. SendMediaGroup t (album_media cfg messages)) (target_channels cfg)
                      else [])
        \<and> (\<forall>t \<in> set (target_channels cfg). \<forall>e.
              album_media cfg messages \<noteq> []
              \<and> send_media_group env t (album_media cfg messages) = Inl e \<longrightarrow>
                (\<forall>x \<in> set messages.
                   db_insert env (log_row (chat_id x) t (message_id x) None (get_message_type x)
                                    (media_group_id x) True False (Some e)) = None \<longrightarrow>
                   log_row (chat_id x) t (message_id x) None (get_message_type x)
                     (media_group_id x) True False (Some e)
                     \<in> set (forward_logs (snd (forward_media_group env cfg messages s))))
                \<and> (notify_admin_on_error cfg \<longrightarrow>
                     (\<forall>a \<in> set (admins cfg).
                        (a, error_text env (hd messages) t e)
                          \<in> set (notified (snd (forward_media_group env cfg messages s)))))))"
proof (intro conjI impI ballI allI)
  show "fst (forward_messages_group env cfg messages s) = Returned ()"
    by (rule forward_messages_group_fst)
  show "fst (forward_single_message env cfg m s) = Returned ()"
    by (rule forward_single_message_fst)
  show "sent (snd (forward_single_message env cfg m s)) =
       sent s @ map (\<lambda>t. CopyMessage t (chat_id m) (message_id m) (single_caption cfg m))
                  (target_channels cfg)"
    by (rule forward_single_message_sent)
next
  fix t e
  assume t: "t \<in> set (target_channels cfg)"
    and e: "copy_message env t (chat_id m) (message_id m) (single_caption cfg m) = Inl e"
  {
    assume "db_insert env (log_row (chat_id m) t (message_id m) None (get_message_type m)
                             (media_group_id m) False False (Some e)) = None"
    with t e show "log_row (chat_id m) t (message_id m) None (get_message_type m)
                (media_group_id m) False False (Some e)
                \<in> set (forward_logs (snd (forward_single_message env cfg m s)))"
      by (force simp add: forward_single_message_logs written_def)
  }
  {
    fix a
    assume "notify_admin_on_error cfg" "a \<in> set (admins cfg)"
    with t e show "(a, error_text env m t e) \<in> set (notified (snd (forward_single_message env cfg m s)))"
      by (force simp add: forward_single_message_notified)
  }
next
  assume ne: "messages \<noteq> []"
  show "fst (forward_media_group env cfg messages s) = Returned ()"
    by (rule forward_media_group_fst[OF ne])
  show "sent (snd (forward_media_group env cfg messages s)) =
            sent s @ (if album_media cfg messages \<noteq> []
                      then map (\<lambda>t. SendMediaGroup t (album_media cfg messages)) (target_channels cfg)
                      else [])"
    by (rule forward_media_group_sent[OF ne])
  fix t e
  assume t: "t \<in> set (target_channels cfg)"
    and e: "album_media cfg messages \<noteq> []
              \<and> send_media_group env t (album_media cfg messages) = Inl e"
  {
    fix x
    assume "x \<in> set messages"
      "db_insert env (log_row (chat_id x) t (message_id x) None (get_message_type x)
                                    (media_group_id x) True False (Some e)) = None"
    with t e show "log_row (chat_id x) t (message_id x) None (get_message_type x)
                     (media_group_id x) True False (Some e)
                     \<in> set (forward_logs (snd (forward_media_group env cfg messages s)))"
      by (force simp add: forward_media_group_logs[OF ne] written_def)
  }
  {
    fix a
    assume "notify_admin_on_error cfg" "a \<in> set (admins cfg)"
    with t e show "(a, error_text env (hd messages) t e)
                          \<in> set (notified (snd (forward_media_group env cfg messages s)))"
      by (force simp add: forward_media_group_notified[OF ne])
  }
qed


text \<open>
  Destination 200 of three refuses a photo, then an album of a photo and a video: all
  three destinations are attempted, the failure row for 200 is written and both admins
  are notified.
\<close>

lemma ex_album_media:
  "album_media ex_cfg [ex_photo 1 (Some ''g1''), ex_video 2 (Some ''g1'')] =
     [InputMediaPhoto ''large'' (Some ''hello''), InputMediaVideo ''clip'' None]"
  by (simp add: album_media_def album_caption_def media_items_def input_media_of_def
      build_caption_is_caption ex_defs)

theorem destination_failure_isolated_witness:
  "fst (forward_single_message ex_env_refusing ex_cfg (ex_photo 1 None) ex_state) = Returned ()
   \<and> map call_target (sent (snd (forward_single_message ex_env_refusing ex_cfg (ex_photo 1 None) ex_state)))
       = [100, 200, 300]
   \<and> copy_message ex_env_refusing 200 (- 1001) 1 (Some ''hello'') = Inl ''Forbidden''
   \<and> log_row (- 1001) 200 1 None ''photo'' None False False (Some ''Forbidden'')
       \<in> set (forward_logs (snd (forward_single_message ex_env_refusing ex_cfg (ex_photo 1 None) ex_state)))
   \<and> (1, error_text ex_env_refusing (ex_photo 1 None) 200 ''Forbidden'')
       \<in> set (notified (snd (forward_single_message ex_env_refusing ex_cfg (ex_photo 1 None) ex_state)))
   \<and> (2, error_text ex_env_refusing (ex_photo 1 None) 200 ''Forbidden'')
       \<in> set (notified (snd (forward_single_message ex_env_refusing ex_cfg (ex_photo 1 None) ex_state)))
   \<and> fst (forward_media_group ex_env_refusing ex_cfg
            [ex_photo 1 (Some ''g1''), ex_video 2 (Some ''g1'')] ex_state) = Returned ()
   \<and> map call_target (sent (snd (forward_media_group ex_env_refusing ex_cfg
            [ex_photo 1 (Some ''g1''), ex_video 2 (Some ''g1'')] ex_state))) = [100, 200, 300]
   \<and> log_row (- 1001) 200 2 None ''video'' (Some ''g1'') True False (Some ''Forbidden'')
       \<in> set (forward_logs (snd (forward_media_group ex_env_refusing ex_cfg
            [ex_photo 1 (Some ''g1''), ex_video 2 (Some ''g1'')] ex_state)))
   \<and> (1, error_text ex_env_refusing (ex_photo 1 (Some ''g1'')) 200 ''Forbidden'')
       \<in> set (notified (snd (forward_media_group ex_env_refusing ex_cfg
            [ex_photo 1 (Some ''g1''), ex_video 2 (Some ''g1'')] ex_state)))"
proof -
  have cfg: "target_channels ex_cfg = [100, 200, 300]" "admins ex_cfg = [1, 2]"
    "notify_admin_on_error ex_cfg" "single_caption ex_cfg (ex_photo 1 None) = Some ''hello''"
    by (simp_all add: ex_defs single_caption_def build_caption_is_caption)
  have msg: "chat_id (ex_photo 1 None) = - 1001" "message_id (ex_photo 1 None) = 1"
    "get_message_type (ex_photo 1 None) = ''photo''" "media_group_id (ex_photo 1 None) = None"
    "chat_id (ex_video 2 (Some ''g1'')) = - 1001" "message_id (ex_video 2 (Some ''g1'')) = 2"
    "get_message_type (ex_video 2 (Some ''g1'')) = ''video''"
    "media_group_id (ex_video 2 (Some ''g1'')) = Some ''g1''"
    by (simp_all add: ex_defs get_message_type_def)
  have env: "copy_message ex_env_refusing 200 (- 1001) 1 (Some ''hello'') = Inl ''Forbidden''"
    "send_media_group ex_env_refusing 200
       [InputMediaPhoto ''large'' (Some ''hello''), InputMediaVideo ''clip'' None] = Inl ''Forbidden''"
    "db_insert ex_env_refusing = (\<lambda>row. None)" "sent ex_state = []"
    by (simp_all add: ex_defs)
  show ?thesis
    using destination_failure_isolated[of ex_env_refusing ex_cfg
        "[ex_photo 1 (Some ''g1''), ex_video 2 (Some ''g1'')]" ex_state "ex_photo 1 None"]
    by (simp add: cfg msg env ex_album_media)
qed


section \<open>When a batch is sent as an album\<close>

text \<open>
  C7, as amended: a batch is dispatched as an album, and its rows are logged with
  \<open>is_media_group\<close> true, if and only if it has more than one message and its first
  message carries a non-empty group identifier. Both conditions are needed: the rows
  and the content sends that a dispatch adds all carry that flag.
\<close>

theorem album_needs_size_and_group_id:
  "(\<forall>r \<in> set (drop (length (forward_logs s))
                 (forward_logs (snd (forward_messages_group env cfg messages s)))).
      is_media_group r = (length messages > 1 \<and> truthy (media_group_id (hd messages))))
   \<and> (\<forall>c \<in> set (drop (length (sent s)) (sent (snd (forward_messages_group env cfg messages s)))).
      is_album c = (length messages > 1 \<and> truthy (media_group_id (hd messages))))"
proof -
  consider (nothing) "messages = [] \<or> target_channels cfg = []"
    | (album) "messages \<noteq> []" "target_channels cfg \<noteq> []"
        "length messages > 1 \<and> truthy (media_group_id (hd messages))"
    | (single) "messages \<noteq> []" "target_channels cfg \<noteq> []"
        "\<not> (length messages > 1 \<and> truthy (media_group_id (hd messages)))"
    by blast
  then show ?thesis
  proof cases
    case nothing
    then show ?thesis by (simp add: forward_messages_group_nothing)
  next
    case album
    have "forward_logs (delayed cfg s) = forward_logs s" "sent (delayed cfg s) = sent s"
      by (simp_all add: delayed_def)
    with album show ?thesis
      by (auto simp add: forward_messages_group_album forward_media_group_logs
          forward_media_group_sent written_def log_row_def
          split: if_splits sum.splits option.splits)
  next
    case single
    have "forward_logs (delayed cfg s) = forward_logs s" "sent (delayed cfg s) = sent s"
      by (simp_all add: delayed_def)
    with single show ?thesis
      by (auto simp add: forward_messages_group_single forward_single_message_logs
          forward_single_message_sent written_def log_row_def
          split: if_splits sum.splits option.splits)
  qed
qed


text \<open>The fields of the concrete inputs.\<close>

lemma ex_cfg_fields:
  "target_channels ex_cfg = [100, 200, 300]" "admins ex_cfg = [1, 2]"
  "notify_admin_on_error ex_cfg" "add_source_info ex_cfg" "delay_seconds ex_cfg = 0"
  "source_channels ex_cfg = [- 1001]" "filter_content_types ex_cfg = []"
  "keyword_filter ex_cfg = []"
  by (simp_all add: ex_defs)

lemma ex_state_fields:
  "forward_logs ex_state = []" "sent ex_state = []" "notified ex_state = []"
  "messages_forwarded ex_state = 0" "failed_forwards ex_state = 0"
  "media_groups_forwarded ex_state = 0" "messages_received ex_state = 0"
  "slept ex_state = []" "oplog ex_state = []" "emitted ex_state = []"
  "media_groups ex_state = Map.empty" "group_timers ex_state = Map.empty"
  by (simp_all add: ex_defs)

lemma ex_env_fields:
  "copy_message ex_env t f i c = Inr (i + 1000)"
  "send_media_group ex_env t media = Inr (map (\<lambda>(k, im). 9000 + int k) (enumerate 0 media))"
  "send_message ex_env a txt = None" "db_insert ex_env row = None"
  by (simp_all add: ex_defs)

lemma ex_msg_fields:
  "chat_id (ex_photo i g) = - 1001" "message_id (ex_photo i g) = i"
  "media_group_id (ex_photo i g) = g" "get_message_type (ex_photo i g) = ''photo''"
  "chat_id (ex_video i g) = - 1001" "message_id (ex_video i g) = i"
  "media_group_id (ex_video i g) = g" "get_message_type (ex_video i g) = ''video''"
  "chat_id (ex_sticker i g) = - 1001" "message_id (ex_sticker i g) = i"
  "media_group_id (ex_sticker i g) = g" "get_message_type (ex_sticker i g) = ''sticker''"
  "input_media_of (ex_photo i g) c = Some (InputMediaPhoto ''large'' c)"
  "input_media_of (ex_video i g) c = Some (InputMediaVideo ''clip'' c)"
  "input_media_of (ex_sticker i g) c = None"
  "build_caption cfg (ex_photo i g) = ''hello''"
  "build_caption cfg (ex_video i g) = ''hello''"
  "build_caption cfg (ex_sticker i g) = ''hello''"
  by (simp_all add: ex_defs get_message_type_def input_media_of_def build_caption_is_caption)

lemmas ex_fields = ex_cfg_fields ex_state_fields ex_env_fields ex_msg_fields

text \<open>
  C7 as the specification states it (a group if the size is greater than one or the
  messages carry a group identifier) fails for a batch of one photo that carries the
  group identifier "g1": it is sent with \<open>copy_message\<close> to each destination and its
  rows are logged with \<open>is_media_group\<close> false.
\<close>

theorem single_message_with_group_id_is_not_an_album:
  "(length [ex_photo 1 (Some ''g1'')] > 1 \<or> truthy (media_group_id (ex_photo 1 (Some ''g1''))))
   \<and> forward_logs (snd (forward_messages_group ex_env ex_cfg [ex_photo 1 (Some ''g1'')] ex_state)) =
       [log_row (- 1001) 100 1 (Some 1001) ''photo'' (Some ''g1'') False True None,
        log_row (- 1001) 200 1 (Some 1001) ''photo'' (Some ''g1'') False True None,
        log_row (- 1001) 300 1 (Some 1001) ''photo'' (Some ''g1'') False True None]
   \<and> \<not> is_media_group (log_row (- 1001) 100 1 (Some 1001) ''photo'' (Some ''g1'') False True None)
   \<and> sent (snd (forward_messages_group ex_env ex_cfg [ex_photo 1 (Some ''g1'')] ex_state)) =
       [CopyMessage 100 (- 1001) 1 (Some ''hello''), CopyMessage 200 (- 1001) 1 (Some ''hello''),
        CopyMessage 300 (- 1001) 1 (Some ''hello'')]"
  by (simp add: forward_messages_group_single forward_single_message_logs
      forward_single_message_sent delayed_def written_def single_caption_def ex_fields log_row_def)

text \<open>
  A photo and a video of group "g1": every row and every send carries the album flag.
\<close>

theorem album_needs_size_and_group_id_witness:
  "forward_logs (snd (forward_messages_group ex_env ex_cfg
       [ex_photo 1 (Some ''g1''), ex_video 2 (Some ''g1'')] ex_state)) \<noteq> []
   \<and> list_all is_media_group (forward_logs (snd (forward_messages_group ex_env ex_cfg
       [ex_photo 1 (Some ''g1''), ex_video 2 (Some ''g1'')] ex_state)))
   \<and> sent (snd (forward_messages_group ex_env ex_cfg
       [ex_photo 1 (Some ''g1''), ex_video 2 (Some ''g1'')] ex_state)) \<noteq> []
   \<and> list_all is_album (sent (snd (forward_messages_group ex_env ex_cfg
       [ex_photo 1 (Some ''g1''), ex_video 2 (Some ''g1'')] ex_state)))"
proof -
  have ne: "forward_logs (snd (forward_messages_group ex_env ex_cfg
       [ex_photo 1 (Some ''g1''), ex_video 2 (Some ''g1'')] ex_state)) \<noteq> []"
    "sent (snd (forward_messages_group ex_env ex_cfg
       [ex_photo 1 (Some ''g1''), ex_video 2 (Some ''g1'')] ex_state)) \<noteq> []"
    by (simp_all add: forward_messages_group_album forward_media_group_logs
      forward_media_group_sent delayed_def written_def ex_fields ex_album_media)
  show ?thesis
    using ne album_needs_size_and_group_id[of ex_state ex_env ex_cfg
        "[ex_photo 1 (Some ''g1''), ex_video 2 (Some ''g1'')]"]
    by (simp add: list_all_iff ex_fields)
qed

section \<open>Rows per message and destination\<close>

lemma media_items_length:
  "\<forall>p \<in> set ims. input_media_of (snd p) None \<noteq> None \<Longrightarrow>
   length (media_items cap ims) = length ims"
proof (induction ims)
  case Nil
  then show ?case by (simp add: media_items_def)
next
  case (Cons p ims)
  obtain i m where p: "p = (i, m)" by (cases p)
  have "input_media_of m None \<noteq> None" using Cons.prems p by simp
  then have "input_media_of m (if i = 0 \<and> truthy cap then cap else None) \<noteq> None"
    using input_media_of_None[of m "if i = 0 \<and> truthy cap then cap else None"] by simp
  then obtain im where "input_media_of m (if i = 0 \<and> truthy cap then cap else None) = Some im"
    by auto
  moreover have "length (media_items cap ims) = length ims"
    using Cons by simp
  ultimately show ?case
    using p by (simp add: media_items_def)
qed

lemma album_media_length:
  assumes "\<forall>m \<in> set messages. input_media_of m None \<noteq> None"
  shows "length (album_media cfg messages) = length messages"
proof -
  have "\<forall>p \<in> set (enumerate 0 messages). input_media_of (snd p) None \<noteq> None"
    using assms by (auto simp add: in_set_enumerate_eq)
  then show ?thesis
    unfolding album_media_def by (simp add: media_items_length)
qed

lemma length_concat_const:
  "(\<And>x. x \<in> set xs \<Longrightarrow> length (f x) = n) \<Longrightarrow> length (concat (map f xs)) = length xs * n"
  by (induction xs) simp_all

lemma length_concat_pairs: "length (concat (map (\<lambda>(a, b). [f a b]) ps)) = length ps"
  by (induction ps) auto

text \<open>
  When every message of the batch can be put into an album, the provider answers an
  album with one sent message per item, the database accepts every row, and a batch
  of several messages carries its group identifier, a dispatch writes one row per
  message and destination.
\<close>

lemma dispatch_writes_one_row_per_pair:
  assumes rep: "\<forall>m \<in> set messages. input_media_of m None \<noteq> None"
    and ids: "\<forall>t \<in> set (target_channels cfg). \<forall>ids.
           send_media_group env t (album_media cfg messages) = Inr ids \<longrightarrow>
           length ids = length messages"
    and db: "\<forall>row. db_insert env row = None"
    and grp: "length messages > 1 \<longrightarrow> truthy (media_group_id (hd messages))"
  shows "length (forward_logs (snd (forward_messages_group env cfg messages s))) =
           length (forward_logs s) + length (target_channels cfg) * length messages"
proof -
  have w: "\<And>row. written env row = [row]" using db by (simp add: written_def)
  consider (nothing) "messages = [] \<or> target_channels cfg = []"
    | (album) "messages \<noteq> []" "target_channels cfg \<noteq> []"
        "length messages > 1 \<and> truthy (media_group_id (hd messages))"
    | (single) "messages \<noteq> []" "target_channels cfg \<noteq> []"
        "\<not> (length messages > 1 \<and> truthy (media_group_id (hd messages)))"
    by blast
  then show ?thesis
  proof cases
    case nothing
    then show ?thesis by (auto simp add: forward_messages_group_nothing)
  next
    case album
    have ne: "album_media cfg messages \<noteq> []"
      using album(1) album_media_length[OF rep, of cfg] by auto
    have "\<And>t. t \<in> set (target_channels cfg) \<Longrightarrow>
        length (if album_media cfg messages = [] then []
          else case send_media_group env t (album_media cfg messages) of
               Inr ids \<Rightarrow>
                 concat (map (\<lambda>(m, i). written env
                                (log_row (chat_id m) t (message_id m) (Some i) (get_message_type m)
                                   (media_group_id m) True True None)) (zip messages ids))
             | Inl e \<Rightarrow>
                 concat (map (\<lambda>m. written env
                                (log_row (chat_id m) t (message_id m) None (get_message_type m)
                                   (media_group_id m) True False (Some e))) messages)) = length messages"
      using ne ids by (auto simp add: w length_concat_const length_concat_pairs split: sum.splits)
    then show ?thesis
      using album
      by (simp add: forward_messages_group_album forward_media_group_logs delayed_def
          length_concat_const)
  next
    case single
    then have one: "length messages = 1" using grp by (cases messages) auto
    have "\<And>t. length (case copy_message env t (chat_id (hd messages)) (message_id (hd messages))
                 (single_caption cfg (hd messages)) of
            Inr fwd \<Rightarrow> written env (log_row (chat_id (hd messages)) t (message_id (hd messages))
                          (Some fwd) (get_message_type (hd messages))
                          (media_group_id (hd messages)) False True None)
          | Inl e \<Rightarrow> written env (log_row (chat_id (hd messages)) t (message_id (hd messages))
                          None (get_message_type (hd messages))
                          (media_group_id (hd messages)) False False (Some e))) = 1"
      by (simp add: w split: sum.splits)
    then show ?thesis
      using single one
      by (simp add: forward_messages_group_single forward_single_message_logs delayed_def
          length_concat_const)
  qed
qed


text \<open>
  C2: a dispatch to N destinations should write N times the size of the batch rows,
  also when some messages of an album cannot be put into the album. For the album of
  a photo and a sticker, one destination and a provider that accepts the send, the
  album sent holds the photo only, one row is written instead of two, and the
  counter of forwarded messages is raised by two. With the sticker first, the one
  row written says that the sticker was forwarded, with the id of the sent photo, and
  the photo has no row. For an album of two stickers nothing is sent and no row is
  written.
\<close>

theorem album_success_logs_fewer_rows_than_messages:
  "forward_logs (snd (forward_messages_group ex_env (ex_cfg\<lparr>target_channels := [100]\<rparr>)
       [ex_photo 1 (Some ''g1''), ex_sticker 2 (Some ''g1'')] ex_state)) =
     [log_row (- 1001) 100 1 (Some 9000) ''photo'' (Some ''g1'') True True None]
   \<and> sent (snd (forward_messages_group ex_env (ex_cfg\<lparr>target_channels := [100]\<rparr>)
       [ex_photo 1 (Some ''g1''), ex_sticker 2 (Some ''g1'')] ex_state)) =
     [SendMediaGroup 100 [InputMediaPhoto ''large'' (Some ''hello'')]]
   \<and> messages_forwarded (snd (forward_messages_group ex_env (ex_cfg\<lparr>target_channels := [100]\<rparr>)
       [ex_photo 1 (Some ''g1''), ex_sticker 2 (Some ''g1'')] ex_state)) = 2
   \<and> forward_logs (snd (forward_messages_group ex_env (ex_cfg\<lparr>target_channels := [100]\<rparr>)
       [ex_sticker 1 (Some ''g1''), ex_photo 2 (Some ''g1'')] ex_state)) =
     [log_row (- 1001) 100 1 (Some 9000) ''sticker'' (Some ''g1'') True True None]
   \<and> forward_logs (snd (forward_messages_group ex_env (ex_cfg\<lparr>target_channels := [100]\<rparr>)
       [ex_sticker 1 (Some ''g1''), ex_sticker 2 (Some ''g1'')] ex_state)) = []
   \<and> sent (snd (forward_messages_group ex_env (ex_cfg\<lparr>target_channels := [100]\<rparr>)
       [ex_sticker 1 (Some ''g1''), ex_sticker 2 (Some ''g1'')] ex_state)) = []"
proof -
  have media: "album_media (ex_cfg\<lparr>target_channels := [100]\<rparr>)
       [ex_photo 1 (Some ''g1''), ex_sticker 2 (Some ''g1'')] = [InputMediaPhoto ''large'' (Some ''hello'')]"
    "album_media (ex_cfg\<lparr>target_channels := [100]\<rparr>)
       [ex_sticker 1 (Some ''g1''), ex_photo 2 (Some ''g1'')] = [InputMediaPhoto ''large'' None]"
    "album_media (ex_cfg\<lparr>target_channels := [100]\<rparr>)
       [ex_sticker 1 (Some ''g1''), ex_sticker 2 (Some ''g1'')] = []"
    by (simp_all add: album_media_def album_caption_def media_items_def ex_fields)
  show ?thesis
    by (simp add: forward_messages_group_album forward_media_group_logs forward_media_group_sent
        forward_media_group_stats delayed_def written_def media ex_fields)
qed


section \<open>The group aggregator\<close>

lemma add_message_grouped:
  "media_group_id m = Some g \<Longrightarrow> g \<noteq> [] \<Longrightarrow>
   add_message env cfg m s =
     (Returned (),
      s\<lparr>media_groups := (media_groups s)
           (g \<mapsto> (case media_groups s g of None \<Rightarrow> [] | Some b \<Rightarrow> b) @ [m]),
        group_timers := (group_timers s)(g \<mapsto> Sleeping)\<rparr>)"
  by (simp add: add_message_def modify_def Let_def)

lemma for_each_Cons_Returned:
  "body x s = (Returned (), s1) \<Longrightarrow> for_each (x # xs) body s = for_each xs body s1"
  by (simp add: bindM_def)

lemma for_each_Nil: "for_each [] body s = (Returned (), s)"
  by (simp add: returnM_def)

text \<open>The buffer of a group after some arrivals.\<close>

lemma arrivals_eq:
  assumes "\<forall>x \<in> set ms. media_group_id x = Some g" and "g \<noteq> []"
  shows "for_each ms (add_message env cfg) s =
     (Returned (),
      if ms = [] then s
      else s\<lparr>media_groups := (media_groups s)
                (g \<mapsto> (case media_groups s g of None \<Rightarrow> [] | Some b \<Rightarrow> b) @ ms),
             group_timers := (group_timers s)(g \<mapsto> Sleeping)\<rparr>)"
  using assms(1)
proof (induction ms arbitrary: s)
  case Nil
  show ?case by (simp add: returnM_def)
next
  case (Cons m ms)
  have m: "media_group_id m = Some g" using Cons.prems by simp
  have rest: "\<forall>x \<in> set ms. media_group_id x = Some g" using Cons.prems by simp
  define s1 where "s1 = s\<lparr>media_groups := (media_groups s)
           (g \<mapsto> (case media_groups s g of None \<Rightarrow> [] | Some b \<Rightarrow> b) @ [m]),
        group_timers := (group_timers s)(g \<mapsto> Sleeping)\<rparr>"
  have "add_message env cfg m s = (Returned (), s1)"
    unfolding s1_def using m assms(2) by (rule add_message_grouped)
  then have step: "for_each (m # ms) (add_message env cfg) s = for_each ms (add_message env cfg) s1"
    by (rule for_each_Cons_Returned[where body = "add_message env cfg"])
  show ?case
  proof (cases "ms = []")
    case True
    then show ?thesis unfolding step by (simp add: returnM_def s1_def)
  next
    case False
    then show ?thesis unfolding step Cons.IH[OF rest] by (simp add: s1_def)
  qed
qed

lemma process_group_wake_sleeping:
  "group_timers s g = Some Sleeping \<Longrightarrow> media_groups s g = Some buf \<Longrightarrow>
   process_group_wake g s =
     (Returned (),
      s\<lparr>media_groups := (media_groups s)(g \<mapsto> sort_key message_id buf),
        group_timers := (group_timers s)(g \<mapsto> InCallback (sort_key message_id buf)),
        emitted := emitted s @ [sort_key message_id buf]\<rparr>)"
  by (simp add: process_group_wake_def emit_def action_defs Let_def)

lemma process_group_finish_in_callback:
  assumes "group_timers s g = Some (InCallback batch)" "media_groups s g = Some buf"
  shows "process_group_finish env cfg g s =
     (Returned (),
      (snd (forward_messages_group env cfg batch s))
        \<lparr>media_groups := (media_groups s)(g := None),
         group_timers := (group_timers s)(g := None)\<rparr>)"
proof -
  obtain s' where fwd: "forward_messages_group env cfg batch s = (Returned (), s')"
    using forward_messages_group_fst[of env cfg batch s]
    by (cases "forward_messages_group env cfg batch s") auto
  have "media_groups s' = media_groups s" "group_timers s' = group_timers s"
    using forward_messages_group_frame(1,2)[of env cfg batch s] fwd by simp_all
  then show ?thesis
    using assms fwd by (simp add: process_group_finish_def del_media_group_def action_defs)
qed

text \<open>
  C1: the messages \<open>ms\<close> of one group arrive, in any order, while the group has no
  buffer yet and with no expiry in between (every arrival restarts the timer, and
  nothing is emitted before the expiry). When the timer then expires, the batch
  emitted is \<open>ms\<close> sorted by message id: it has exactly the messages that arrived and
  its ids ascend. When the callback has returned, the buffer of the group and its
  timer handle are deleted.
\<close>

theorem group_batch_sorted_and_complete:
  assumes "ms \<noteq> []" and "\<forall>m \<in> set ms. media_group_id m = Some g" and "g \<noteq> []"
    and "media_groups s g = None"
  shows "group_timers (snd (for_each ms (add_message env cfg) s)) g = Some Sleeping
    \<and> emitted (snd (for_each ms (add_message env cfg) s)) = emitted s
    \<and> emitted (snd (process_group_wake g (snd (for_each ms (add_message env cfg) s))))
        = emitted s @ [sort_key message_id ms]
    \<and> mset (sort_key message_id ms) = mset ms
    \<and> sorted (map message_id (sort_key message_id ms))
    \<and> fst (process_group_finish env cfg g
             (snd (process_group_wake g (snd (for_each ms (add_message env cfg) s))))) = Returned ()
    \<and> emitted (snd (process_group_finish env cfg g
             (snd (process_group_wake g (snd (for_each ms (add_message env cfg) s))))))
        = emitted s @ [sort_key message_id ms]
    \<and> media_groups (snd (process_group_finish env cfg g
             (snd (process_group_wake g (snd (for_each ms (add_message env cfg) s)))))) g = None
    \<and> group_timers (snd (process_group_finish env cfg g
             (snd (process_group_wake g (snd (for_each ms (add_message env cfg) s)))))) g = None"
proof -
  define s1 where "s1 = s\<lparr>media_groups := (media_groups s)(g \<mapsto> ms),
                            group_timers := (group_timers s)(g \<mapsto> Sleeping)\<rparr>"
  define s2 where "s2 = s1\<lparr>media_groups := (media_groups s1)(g \<mapsto> sort_key message_id ms),
                             group_timers := (group_timers s1)(g \<mapsto> InCallback (sort_key message_id ms)),
                             emitted := emitted s1 @ [sort_key message_id ms]\<rparr>"
  have arr: "for_each ms (add_message env cfg) s = (Returned (), s1)"
    using arrivals_eq[OF assms(2,3), of env cfg s] assms(1,4) by (simp add: s1_def)
  have wake: "process_group_wake g s1 = (Returned (), s2)"
    using process_group_wake_sleeping[of s1 g ms]
    by (simp add: s1_def s2_def)
  have fin: "process_group_finish env cfg g s2 =
      (Returned (), (snd (forward_messages_group env cfg (sort_key message_id ms) s2))
         \<lparr>media_groups := (media_groups s2)(g := None),
          group_timers := (group_timers s2)(g := None)\<rparr>)"
    by (rule process_group_finish_in_callback[where buf = "sort_key message_id ms"])
       (simp_all add: s2_def)
  have f1: "group_timers s1 g = Some Sleeping" "emitted s1 = emitted s"
    by (simp_all add: s1_def)
  have f2: "emitted s2 = emitted s @ [sort_key message_id ms]"
    by (simp add: s2_def s1_def)
  show ?thesis
    by (simp add: arr wake fin forward_messages_group_frame f1 f2)
qed


text \<open>
  The scenario of the specification: the messages 5, 3 and 4 of group "g1" arrive in
  that order; the batch emitted is 3, 4, 5, and the group is gone afterwards.
\<close>

theorem group_batch_sorted_and_complete_witness:
  "map message_id (sort_key message_id
       [ex_photo 5 (Some ''g1''), ex_photo 3 (Some ''g1''), ex_photo 4 (Some ''g1'')]) = [3, 4, 5]
   \<and> emitted (snd (process_group_finish ex_env ex_cfg ''g1''
        (snd (process_group_wake ''g1''
          (snd (for_each [ex_photo 5 (Some ''g1''), ex_photo 3 (Some ''g1''), ex_photo 4 (Some ''g1'')]
                  (add_message ex_env ex_cfg) ex_state))))))
       = [[ex_photo 3 (Some ''g1''), ex_photo 4 (Some ''g1''), ex_photo 5 (Some ''g1'')]]
   \<and> media_groups (snd (process_group_finish ex_env ex_cfg ''g1''
        (snd (process_group_wake ''g1''
          (snd (for_each [ex_photo 5 (Some ''g1''), ex_photo 3 (Some ''g1''), ex_photo 4 (Some ''g1'')]
                  (add_message ex_env ex_cfg) ex_state)))))) ''g1'' = None
   \<and> group_timers (snd (process_group_finish ex_env ex_cfg ''g1''
        (snd (process_group_wake ''g1''
          (snd (for_each [ex_photo 5 (Some ''g1''), ex_photo 3 (Some ''g1''), ex_photo 4 (Some ''g1'')]
                  (add_message ex_env ex_cfg) ex_state)))))) ''g1'' = None"
  using group_batch_sorted_and_complete[of
      "[ex_photo 5 (Some ''g1''), ex_photo 3 (Some ''g1''), ex_photo 4 (Some ''g1'')]"
      "''g1''" ex_state ex_env ex_cfg]
  by (simp add: ex_fields)


section \<open>The handlers, as equations\<close>

lemma process_group_finish_eq:
  "process_group_finish env cfg g s =
     (case group_timers s g of
        Some (InCallback batch) \<Rightarrow>
          (case media_groups s g of
             Some buf \<Rightarrow>
               (Returned (), (snd (forward_messages_group env cfg batch s))
                  \<lparr>media_groups := (media_groups s)(g := None),
                   group_timers := (group_timers s)(g := None)\<rparr>)
           | None \<Rightarrow> (Raised ''KeyError'', snd (forward_messages_group env cfg batch s)))
      | _ \<Rightarrow> (Returned (), s))"
proof (cases "group_timers s g")
  case None
  then show ?thesis by (simp add: process_group_finish_def)
next
  case (Some task)
  show ?thesis
  proof (cases task)
    case Sleeping
    with Some show ?thesis by (simp add: process_group_finish_def)
  next
    case Done
    with Some show ?thesis by (simp add: process_group_finish_def)
  next
    case (InCallback batch)
    obtain s' where fwd: "forward_messages_group env cfg batch s = (Returned (), s')"
      using forward_messages_group_fst[of env cfg batch s]
      by (cases "forward_messages_group env cfg batch s") auto
    have "media_groups s' = media_groups s" "group_timers s' = group_timers s"
      using forward_messages_group_frame(1,2)[of env cfg batch s] fwd by simp_all
    with Some InCallback fwd show ?thesis
      by (simp add: process_group_finish_def del_media_group_def action_defs split: option.splits)
  qed
qed

lemma process_group_wake_eq:
  "process_group_wake g s =
     (case group_timers s g of
        Some Sleeping \<Rightarrow>
          (case media_groups s g of
             Some buf \<Rightarrow>
               (Returned (),
                s\<lparr>media_groups := (media_groups s)(g \<mapsto> sort_key message_id buf),
                  group_timers := (group_timers s)(g \<mapsto> InCallback (sort_key message_id buf)),
                  emitted := emitted s @ [sort_key message_id buf]\<rparr>)
           | None \<Rightarrow> (Returned (), s\<lparr>group_timers := (group_timers s)(g \<mapsto> Done)\<rparr>))
      | _ \<Rightarrow> (Returned (), s))"
  by (simp add: process_group_wake_def emit_def action_defs Let_def
      split: option.splits timer_task.splits)

lemma handle_message_eq:
  "handle_message env cfg (Some m) s =
     (if chat_id m \<notin> set (source_channels cfg) then (Returned (), s)
      else if should_filter_message env cfg m (get_message_type m)
      then (Returned (), s\<lparr>messages_received := messages_received s + 1\<rparr>)
      else add_message env cfg m (s\<lparr>messages_received := messages_received s + 1\<rparr>))"
  by (simp add: handle_message_def action_defs Let_def)

lemma add_message_eq:
  "add_message env cfg m s =
     (if \<not> truthy (media_group_id m)
      then forward_messages_group env cfg [m] (s\<lparr>emitted := emitted s @ [[m]]\<rparr>)
      else (Returned (),
            s\<lparr>media_groups := (media_groups s)
                 ((case media_group_id m of Some g \<Rightarrow> g | None \<Rightarrow> []) \<mapsto>
                    (case media_groups s (case media_group_id m of Some g \<Rightarrow> g | None \<Rightarrow> []) of
                       None \<Rightarrow> [] | Some b \<Rightarrow> b) @ [m]),
              group_timers := (group_timers s)
                 ((case media_group_id m of Some g \<Rightarrow> g | None \<Rightarrow> []) \<mapsto> Sleeping)\<rparr>))"
  by (simp add: add_message_def emit_def action_defs Let_def)

lemmas event_defs = handle_message_eq add_message_eq process_group_wake_eq process_group_finish_eq


section \<open>An arrival while the callback runs\<close>

text \<open>
  C5: resetting the timer of a group should never make the group be emitted twice.
  Photo 1 of group "g1" arrives and its timer expires: the batch of photo 1 is handed
  to the callback, and the task waits there for the sends. Photo 2 of the same group
  arrives now: \<open>add_message\<close> appends it to the buffer, which was not deleted, cancels
  the task inside its callback and starts a new timer. When that timer expires the
  batch of photos 1 and 2 is emitted: photo 1 has been emitted twice in one lifecycle
  of the group.
\<close>

theorem arrival_during_callback_emits_twice:
  "emitted (run ex_env ex_cfg
       [Update (Some (ex_photo 1 (Some ''g1''))), Wake ''g1''] ex_state)
     = [[ex_photo 1 (Some ''g1'')]]
   \<and> group_timers (run ex_env ex_cfg
       [Update (Some (ex_photo 1 (Some ''g1''))), Wake ''g1''] ex_state) ''g1''
     = Some (InCallback [ex_photo 1 (Some ''g1'')])
   \<and> media_groups (run ex_env ex_cfg
       [Update (Some (ex_photo 1 (Some ''g1''))), Wake ''g1'',
        Update (Some (ex_photo 2 (Some ''g1'')))] ex_state) ''g1''
     = Some [ex_photo 1 (Some ''g1''), ex_photo 2 (Some ''g1'')]
   \<and> group_timers (run ex_env ex_cfg
       [Update (Some (ex_photo 1 (Some ''g1''))), Wake ''g1'',
        Update (Some (ex_photo 2 (Some ''g1'')))] ex_state) ''g1''
     = Some Sleeping
   \<and> emitted (run ex_env ex_cfg
       [Update (Some (ex_photo 1 (Some ''g1''))), Wake ''g1'',
        Update (Some (ex_photo 2 (Some ''g1''))), Wake ''g1'', Finish ''g1''] ex_state)
     = [[ex_photo 1 (Some ''g1'')], [ex_photo 1 (Some ''g1''), ex_photo 2 (Some ''g1'')]]
   \<and> media_groups (run ex_env ex_cfg
       [Update (Some (ex_photo 1 (Some ''g1''))), Wake ''g1'',
        Update (Some (ex_photo 2 (Some ''g1''))), Wake ''g1'', Finish ''g1''] ex_state) ''g1''
     = None"
  by (simp add: event_defs should_filter_message_def forward_messages_group_frame ex_fields)

section \<open>Where the filter is applied\<close>

text \<open>
  The messages of one group arrive from a source chat: each is counted, the suppressed
  ones are dropped and the others are buffered in their order of arrival.
\<close>

lemma run_append: "run env cfg (es @ fs) s = run env cfg fs (run env cfg es s)"
  by (induction es arbitrary: s) simp_all

lemma handle_message_grouped:
  assumes "media_group_id m = Some g" "g \<noteq> []" "chat_id m \<in> set (source_channels cfg)"
  shows "handle_message env cfg (Some m) s =
     (Returned (),
      if should_filter_message env cfg m (get_message_type m)
      then s\<lparr>messages_received := messages_received s + 1\<rparr>
      else s\<lparr>messages_received := messages_received s + 1,
             media_groups := (media_groups s)
               (g \<mapsto> (case media_groups s g of None \<Rightarrow> [] | Some b \<Rightarrow> b) @ [m]),
             group_timers := (group_timers s)(g \<mapsto> Sleeping)\<rparr>)"
  using assms by (simp add: handle_message_eq add_message_grouped[of m g])

lemma arrivals_filtered:
  assumes "\<forall>m \<in> set ms. media_group_id m = Some g \<and> chat_id m \<in> set (source_channels cfg)"
    and "g \<noteq> []"
  shows "run env cfg (arrivals ms) s =
     (if passing env cfg ms = []
      then s\<lparr>messages_received := messages_received s + length ms\<rparr>
      else s\<lparr>messages_received := messages_received s + length ms,
             media_groups := (media_groups s)
               (g \<mapsto> (case media_groups s g of None \<Rightarrow> [] | Some b \<Rightarrow> b) @ passing env cfg ms),
             group_timers := (group_timers s)(g \<mapsto> Sleeping)\<rparr>)"
  using assms(1)
proof (induction ms arbitrary: s)
  case Nil
  show ?case by (simp add: arrivals_def passing_def)
next
  case (Cons m ms)
  have m: "media_group_id m = Some g" "chat_id m \<in> set (source_channels cfg)"
    using Cons.prems by simp_all
  have rest: "\<forall>m \<in> set ms. media_group_id m = Some g \<and> chat_id m \<in> set (source_channels cfg)"
    using Cons.prems by simp
  define s1 where "s1 = snd (handle_message env cfg (Some m) s)"
  have step: "run env cfg (arrivals (m # ms)) s = run env cfg (arrivals ms) s1"
    by (simp add: arrivals_def s1_def)
  have s1: "s1 = (if should_filter_message env cfg m (get_message_type m)
      then s\<lparr>messages_received := messages_received s + 1\<rparr>
      else s\<lparr>messages_received := messages_received s + 1,
             media_groups := (media_groups s)
               (g \<mapsto> (case media_groups s g of None \<Rightarrow> [] | Some b \<Rightarrow> b) @ [m]),
             group_timers := (group_timers s)(g \<mapsto> Sleeping)\<rparr>)"
    unfolding s1_def by (simp add: handle_message_grouped[OF m(1) assms(2) m(2)])
  show ?case
  proof (cases "should_filter_message env cfg m (get_message_type m)")
    case True
    then have p: "passing env cfg (m # ms) = passing env cfg ms" by (simp add: passing_def)
    show ?thesis unfolding step Cons.IH[OF rest] p using True by (simp add: s1)
  next
    case False
    then have p: "passing env cfg (m # ms) = m # passing env cfg ms" by (simp add: passing_def)
    show ?thesis unfolding step Cons.IH[OF rest] p using False by (simp add: s1)
  qed
qed

text \<open>
  C6, as amended: the filter is evaluated for every arriving message of a source chat,
  before aggregation, on that message's own classification. A suppressed message is
  counted as received and dropped there: it is not buffered, starts no timer, is not
  emitted, and no row, send or notification comes of it. A message that is not
  suppressed is handed to the aggregator. So when the messages \<open>ms\<close> of a new group
  arrive, the buffer holds the ones the filter lets pass and nothing has been logged
  or sent; at expiry those, sorted by message id, are the batch, and the rows and
  sends of the run are the ones of its dispatch. When none passes, nothing is emitted,
  logged or sent.
\<close>

theorem filter_is_applied_to_each_arriving_message:
  "(chat_id m \<in> set (source_channels cfg) \<and> should_filter_message env cfg m (get_message_type m) \<longrightarrow>
      handle_message env cfg (Some m) s =
        (Returned (), s\<lparr>messages_received := messages_received s + 1\<rparr>)
      \<and> forward_logs (snd (handle_message env cfg (Some m) s)) = forward_logs s
      \<and> sent (snd (handle_message env cfg (Some m) s)) = sent s
      \<and> notified (snd (handle_message env cfg (Some m) s)) = notified s
      \<and> emitted (snd (handle_message env cfg (Some m) s)) = emitted s
      \<and> media_groups (snd (handle_message env cfg (Some m) s)) = media_groups s
      \<and> group_timers (snd (handle_message env cfg (Some m) s)) = group_timers s)
   \<and> (chat_id m \<in> set (source_channels cfg) \<and> \<not> should_filter_message env cfg m (get_message_type m) \<longrightarrow>
      handle_message env cfg (Some m) s =
        add_message env cfg m (s\<lparr>messages_received := messages_received s + 1\<rparr>))
   \<and> ((\<forall>x \<in> set ms. media_group_id x = Some g \<and> chat_id x \<in> set (source_channels cfg))
        \<and> g \<noteq> [] \<and> media_groups s g = None \<and> group_timers s g = None \<longrightarrow>
      media_groups (run env cfg (arrivals ms) s) g =
        (if passing env cfg ms = [] then None else Some (passing env cfg ms))
      \<and> messages_received (run env cfg (arrivals ms) s) = messages_received s + length ms
      \<and> forward_logs (run env cfg (arrivals ms) s) = forward_logs s
      \<and> sent (run env cfg (arrivals ms) s) = sent s
      \<and> emitted (run env cfg (arrivals ms) s) = emitted s
      \<and> emitted (run env cfg (arrivals ms @ [Wake g, Finish g]) s) =
          emitted s @ (if passing env cfg ms = [] then []
                       else [sort_key message_id (passing env cfg ms)])
      \<and> forward_logs (run env cfg (arrivals ms @ [Wake g, Finish g]) s) =
          (if passing env cfg ms = [] then forward_logs s
           else forward_logs (snd (forward_messages_group env cfg
                  (sort_key message_id (passing env cfg ms))
                  (run env cfg (arrivals ms @ [Wake g]) s))))
      \<and> sent (run env cfg (arrivals ms @ [Wake g, Finish g]) s) =
          (if passing env cfg ms = [] then sent s
           else sent (snd (forward_messages_group env cfg
                  (sort_key message_id (passing env cfg ms))
                  (run env cfg (arrivals ms @ [Wake g]) s)))))"
proof (intro conjI impI)
  assume a: "(\<forall>x \<in> set ms. media_group_id x = Some g \<and> chat_id x \<in> set (source_channels cfg))
        \<and> g \<noteq> [] \<and> media_groups s g = None \<and> group_timers s g = None"
  then have arr: "run env cfg (arrivals ms) s =
     (if passing env cfg ms = []
      then s\<lparr>messages_received := messages_received s + length ms\<rparr>
      else s\<lparr>messages_received := messages_received s + length ms,
             media_groups := (media_groups s)(g \<mapsto> passing env cfg ms),
             group_timers := (group_timers s)(g \<mapsto> Sleeping)\<rparr>)"
    using arrivals_filtered[of ms g cfg env s] by simp
  show "media_groups (run env cfg (arrivals ms) s) g =
        (if passing env cfg ms = [] then None else Some (passing env cfg ms))"
    using a by (simp add: arr)
  show "messages_received (run env cfg (arrivals ms) s) = messages_received s + length ms"
    by (simp add: arr)
  show "forward_logs (run env cfg (arrivals ms) s) = forward_logs s" by (simp add: arr)
  show "sent (run env cfg (arrivals ms) s) = sent s" by (simp add: arr)
  show "emitted (run env cfg (arrivals ms) s) = emitted s" by (simp add: arr)
  show "emitted (run env cfg (arrivals ms @ [Wake g, Finish g]) s) =
          emitted s @ (if passing env cfg ms = [] then []
                       else [sort_key message_id (passing env cfg ms)])"
    using a
    by (simp add: run_append arr process_group_wake_eq process_group_finish_eq
        forward_messages_group_frame)
  show "forward_logs (run env cfg (arrivals ms @ [Wake g, Finish g]) s) =
          (if passing env cfg ms = [] then forward_logs s
           else forward_logs (snd (forward_messages_group env cfg
                  (sort_key message_id (passing env cfg ms))
                  (run env cfg (arrivals ms @ [Wake g]) s))))"
    using a
    by (simp add: run_append arr process_group_wake_eq process_group_finish_eq)
  show "sent (run env cfg (arrivals ms @ [Wake g, Finish g]) s) =
          (if passing env cfg ms = [] then sent s
           else sent (snd (forward_messages_group env cfg
                  (sort_key message_id (passing env cfg ms))
                  (run env cfg (arrivals ms @ [Wake g]) s))))"
    using a
    by (simp add: run_append arr process_group_wake_eq process_group_finish_eq)
qed (simp_all add: handle_message_def action_defs Let_def)

text \<open>
  The concrete environment folds the letters A to Z, which is what \<open>str.lower()\<close>
  does on these inputs.
\<close>

lemma ex_lower: "ascii_lower ''Buy SPAM now'' = ''buy spam now''" "ascii_lower ''Spam'' = ''spam''"
  by code_simp+

text \<open>
  With videos blocked: a video of group "g1" is dropped on arrival and a photo of the
  same group is buffered. With the keyword "Spam" blocked, the text "Buy SPAM now" is
  dropped. When video 1, photo 3 and photo 2 of group "g1" arrive, the photos pass:
  they are buffered, nothing is sent before expiry, and the batch emitted at expiry is
  photo 2, photo 3.
\<close>

theorem filter_is_applied_to_each_arriving_message_witness:
  "should_filter_message ex_env (ex_cfg\<lparr>filter_content_types := [''video'']\<rparr>)
       (ex_video 1 (Some ''g1'')) (get_message_type (ex_video 1 (Some ''g1'')))
   \<and> handle_message ex_env (ex_cfg\<lparr>filter_content_types := [''video'']\<rparr>)
       (Some (ex_video 1 (Some ''g1''))) ex_state
       = (Returned (), ex_state\<lparr>messages_received := 1\<rparr>)
   \<and> should_filter_message ex_env (ex_cfg\<lparr>keyword_filter := [''Spam'']\<rparr>)
       ((ex_msg 3 None)\<lparr>msg_text := Some ''Buy SPAM now''\<rparr>)
       (get_message_type ((ex_msg 3 None)\<lparr>msg_text := Some ''Buy SPAM now''\<rparr>))
   \<and> handle_message ex_env (ex_cfg\<lparr>keyword_filter := [''Spam'']\<rparr>)
       (Some ((ex_msg 3 None)\<lparr>msg_text := Some ''Buy SPAM now''\<rparr>)) ex_state
       = (Returned (), ex_state\<lparr>messages_received := 1\<rparr>)
   \<and> \<not> should_filter_message ex_env (ex_cfg\<lparr>filter_content_types := [''video'']\<rparr>)
       (ex_photo 2 (Some ''g1'')) (get_message_type (ex_photo 2 (Some ''g1'')))
   \<and> media_groups (snd (handle_message ex_env (ex_cfg\<lparr>filter_content_types := [''video'']\<rparr>)
       (Some (ex_photo 2 (Some ''g1''))) ex_state)) ''g1'' = Some [ex_photo 2 (Some ''g1'')]
   \<and> passing ex_env (ex_cfg\<lparr>filter_content_types := [''video'']\<rparr>)
       [ex_video 1 (Some ''g1''), ex_photo 3 (Some ''g1''), ex_photo 2 (Some ''g1'')]
       = [ex_photo 3 (Some ''g1''), ex_photo 2 (Some ''g1'')]
   \<and> media_groups (run ex_env (ex_cfg\<lparr>filter_content_types := [''video'']\<rparr>)
       (arrivals [ex_video 1 (Some ''g1''), ex_photo 3 (Some ''g1''), ex_photo 2 (Some ''g1'')])
       ex_state) ''g1'' = Some [ex_photo 3 (Some ''g1''), ex_photo 2 (Some ''g1'')]
   \<and> sent (run ex_env (ex_cfg\<lparr>filter_content_types := [''video'']\<rparr>)
       (arrivals [ex_video 1 (Some ''g1''), ex_photo 3 (Some ''g1''), ex_photo 2 (Some ''g1'')])
       ex_state) = []
   \<and> emitted (run ex_env (ex_cfg\<lparr>filter_content_types := [''video'']\<rparr>)
       (arrivals [ex_video 1 (Some ''g1''), ex_photo 3 (Some ''g1''), ex_photo 2 (Some ''g1'')]
          @ [Wake ''g1'', Finish ''g1'']) ex_state)
       = [[ex_photo 2 (Some ''g1''), ex_photo 3 (Some ''g1'')]]"
proof -
  let ?cfgv = "ex_cfg\<lparr>filter_content_types := [''video'']\<rparr>"
  let ?cfgk = "ex_cfg\<lparr>keyword_filter := [''Spam'']\<rparr>"
  let ?spam = "(ex_msg 3 None)\<lparr>msg_text := Some ''Buy SPAM now''\<rparr>"
  let ?ms = "[ex_video 1 (Some ''g1''), ex_photo 3 (Some ''g1''), ex_photo 2 (Some ''g1'')]"
  have sv: "should_filter_message ex_env ?cfgv (ex_video 1 (Some ''g1''))
              (get_message_type (ex_video 1 (Some ''g1'')))"
    by (simp add: should_filter_message_def ex_fields)
  have np: "\<not> should_filter_message ex_env ?cfgv (ex_photo 2 (Some ''g1''))
              (get_message_type (ex_photo 2 (Some ''g1'')))"
    by (simp add: should_filter_message_def ex_fields)
  have kw: "should_filter_message ex_env ?cfgk ?spam (get_message_type ?spam)"
    by (simp add: should_filter_message_def get_message_type_def ex_defs ex_lower)
  have src: "chat_id ?spam \<in> set (source_channels ?cfgk)"
    by (simp add: ex_defs)
  have p: "passing ex_env ?cfgv ?ms = [ex_photo 3 (Some ''g1''), ex_photo 2 (Some ''g1'')]"
    by (simp add: passing_def should_filter_message_def ex_fields)
  have h1: "handle_message ex_env ?cfgv (Some (ex_video 1 (Some ''g1''))) ex_state
       = (Returned (), ex_state\<lparr>messages_received := 1\<rparr>)"
    using filter_is_applied_to_each_arriving_message[of "ex_video 1 (Some ''g1'')" ?cfgv ex_env
        ex_state "[]" "''g1''"] sv
    by (simp add: ex_fields)
  have h2: "handle_message ex_env ?cfgk (Some ?spam) ex_state
       = (Returned (), ex_state\<lparr>messages_received := 1\<rparr>)"
    using filter_is_applied_to_each_arriving_message[of ?spam ?cfgk ex_env ex_state "[]" "''g1''"]
      kw src
    by (simp add: ex_state_fields)
  have h3: "media_groups (snd (handle_message ex_env ?cfgv (Some (ex_photo 2 (Some ''g1''))) ex_state))
       ''g1'' = Some [ex_photo 2 (Some ''g1'')]"
    using filter_is_applied_to_each_arriving_message[of "ex_photo 2 (Some ''g1'')" ?cfgv ex_env
        ex_state "[]" "''g1''"] np
    by (simp add: add_message_eq ex_fields)
  have g: "media_groups (run ex_env ?cfgv (arrivals ?ms) ex_state) ''g1''
             = Some [ex_photo 3 (Some ''g1''), ex_photo 2 (Some ''g1'')]
     \<and> sent (run ex_env ?cfgv (arrivals ?ms) ex_state) = []
     \<and> emitted (run ex_env ?cfgv (arrivals ?ms @ [Wake ''g1'', Finish ''g1'']) ex_state)
             = [[ex_photo 2 (Some ''g1''), ex_photo 3 (Some ''g1'')]]"
    using filter_is_applied_to_each_arriving_message[of "ex_video 1 (Some ''g1'')" ?cfgv ex_env
        ex_state ?ms "''g1''"]
    by (simp add: p ex_fields)
  show ?thesis
    using sv np kw p h1 h2 h3 g by simp
qed

text \<open>
  C6 as the specification states it (the filter is evaluated once per batch, on its
  first message, and a suppressed batch leaves no row and no send) fails with videos
  blocked. Group "g1" arrives as video 1, then photo 2: its first message is
  suppressed, yet photo 2 is emitted and copied to the three destinations, with three
  rows. And when the group arrives as photo 1, then video 2, its first message is not
  suppressed, yet the video is missing from the emitted batch.
\<close>

theorem group_with_suppressed_first_message_is_still_forwarded:
  "should_filter_message ex_env (ex_cfg\<lparr>filter_content_types := [''video'']\<rparr>)
       (ex_video 1 (Some ''g1'')) (get_message_type (ex_video 1 (Some ''g1'')))
   \<and> emitted (run ex_env (ex_cfg\<lparr>filter_content_types := [''video'']\<rparr>)
       [Update (Some (ex_video 1 (Some ''g1''))), Update (Some (ex_photo 2 (Some ''g1''))),
        Wake ''g1'', Finish ''g1''] ex_state) = [[ex_photo 2 (Some ''g1'')]]
   \<and> forward_logs (run ex_env (ex_cfg\<lparr>filter_content_types := [''video'']\<rparr>)
       [Update (Some (ex_video 1 (Some ''g1''))), Update (Some (ex_photo 2 (Some ''g1''))),
        Wake ''g1'', Finish ''g1''] ex_state)
     = [log_row (- 1001) 100 2 (Some 1002) ''photo'' (Some ''g1'') False True None,
        log_row (- 1001) 200 2 (Some 1002) ''photo'' (Some ''g1'') False True None,
        log_row (- 1001) 300 2 (Some 1002) ''photo'' (Some ''g1'') False True None]
   \<and> sent (run ex_env (ex_cfg\<lparr>filter_content_types := [''video'']\<rparr>)
       [Update (Some (ex_video 1 (Some ''g1''))), Update (Some (ex_photo 2 (Some ''g1''))),
        Wake ''g1'', Finish ''g1''] ex_state)
     = [CopyMessage 100 (- 1001) 2 (Some ''hello''), CopyMessage 200 (- 1001) 2 (Some ''hello''),
        CopyMessage 300 (- 1001) 2 (Some ''hello'')]
   \<and> \<not> should_filter_message ex_env (ex_cfg\<lparr>filter_content_types := [''video'']\<rparr>)
       (ex_photo 1 (Some ''g1'')) (get_message_type (ex_photo 1 (Some ''g1'')))
   \<and> emitted (run ex_env (ex_cfg\<lparr>filter_content_types := [''video'']\<rparr>)
       [Update (Some (ex_photo 1 (Some ''g1''))), Update (Some (ex_video 2 (Some ''g1''))),
        Wake ''g1'', Finish ''g1''] ex_state) = [[ex_photo 1 (Some ''g1'')]]"
  by (simp add: event_defs should_filter_message_def forward_messages_group_frame
      forward_messages_group_single forward_single_message_logs forward_single_message_sent
      forward_single_message_frame delayed_def written_def single_caption_def ex_fields ex_cfg_def)

end
